theory Spec2Isabelle
  imports Complex_Main "HOL-Library.Word"
begin

unbundle bit_operations_syntax

section \<open>LinguaFriend: the live voice client and the chat input\<close>

text \<open>
  The development follows \<^verbatim>\<open>src/App.tsx\<close> (which holds the application component and the
  service module with the class \<^verbatim>\<open>LiveClient\<close>) and \<^verbatim>\<open>src/types.ts\<close> (which holds the
  \<^verbatim>\<open>ChatInput\<close> component).

  Conventions of the embedding.
  \<^item> A JavaScript string is a \<^typ>\<open>string\<close>; a character stands for the code unit with the same
    number (0 to 255). This covers every binary string and every base64 text; a code unit
    above 255 is not a base64 character and is rejected by \<^verbatim>\<open>atob\<close> like any other
    character outside the alphabet.
  \<^item> A \<^verbatim>\<open>Uint8Array\<close> is a list of \<^typ>\<open>8 word\<close>, an \<^verbatim>\<open>Int16Array\<close> a list of
    \<^typ>\<open>16 word\<close> read by \<^const>\<open>sint\<close>.
  \<^item> A thrown exception is the \<^const>\<open>Inl\<close> branch of a sum.
  \<^item> What a method does to the outside world (a callback, a message sent on the session, a
    call on an audio node) is an entry of the list of effects it returns, in program order.
\<close>

subsection \<open>Exceptions\<close>

datatype js_error =
    InvalidCharacterError
  | RangeError
  | NotSupportedError
  | TypeError
  | Error string

subsection \<open>Platform: \<^verbatim>\<open>btoa\<close> and \<^verbatim>\<open>atob\<close>\<close>

text \<open>
  \<^verbatim>\<open>btoa\<close> and \<^verbatim>\<open>atob\<close> are functions of the browser, not of the repository. They are
  modelled after the HTML standard: \<^verbatim>\<open>btoa\<close> is the base64 encoding of RFC 4648 with
  padding, \<^verbatim>\<open>atob\<close> is the standard's forgiving-base64 decode (ASCII whitespace is removed,
  one or two trailing \<^verbatim>\<open>=\<close> are removed when the length is a multiple of four, a length
  that leaves remainder one and any character outside the alphabet fail, left-over bits
  are discarded).
\<close>

definition b64_alphabet :: string where
  "b64_alphabet = ''ABCDEFGHIJKLMNOPQRSTUVWXYZabcdefghijklmnopqrstuvwxyz0123456789+/''"

definition b64_char :: "nat \<Rightarrow> char" where
  "b64_char i = b64_alphabet ! i"

fun index_of :: "'a \<Rightarrow> 'a list \<Rightarrow> nat option" where
  "index_of x [] = None"
| "index_of x (y # ys) = (if x = y then Some 0 else map_option Suc (index_of x ys))"

definition b64_index :: "char \<Rightarrow> nat option" where
  "b64_index c = index_of c b64_alphabet"

text \<open>Three bytes give four six-bit groups; one or two left-over bytes give two or three.\<close>

fun sextets :: "nat list \<Rightarrow> nat list" where
  "sextets (a # b # c # rest) =
     [a div 4, (a mod 4) * 16 + b div 16, (b mod 16) * 4 + c div 64, c mod 64] @ sextets rest"
| "sextets [a, b] = [a div 4, (a mod 4) * 16 + b div 16, (b mod 16) * 4]"
| "sextets [a] = [a div 4, (a mod 4) * 16]"
| "sextets [] = []"

definition b64_padding :: "nat \<Rightarrow> string" where
  "b64_padding n = replicate ((3 - n mod 3) mod 3) (CHR ''='')"

definition btoa :: "string \<Rightarrow> string" where
  "btoa binary =
     map b64_char (sextets (map of_char binary)) @ b64_padding (length binary)"

definition ascii_whitespace :: "char \<Rightarrow> bool" where
  "ascii_whitespace c \<longleftrightarrow> c \<in> {CHR 0x09, CHR 0x0A, CHR 0x0C, CHR 0x0D, CHR 0x20}"

definition strip_padding :: "string \<Rightarrow> string" where
  "strip_padding d =
     (if length d mod 4 = 0 \<and> d \<noteq> [] \<and> last d = CHR ''=''
      then (let d1 = butlast d
            in if d1 \<noteq> [] \<and> last d1 = CHR ''='' then butlast d1 else d1)
      else d)"

text \<open>Four six-bit groups give three bytes; two or three left-over groups give one or two.\<close>

fun octets :: "nat list \<Rightarrow> nat list" where
  "octets (p # q # r # s # rest) =
     [p * 4 + q div 16, (q mod 16) * 16 + r div 4, (r mod 4) * 64 + s] @ octets rest"
| "octets [p, q, r] = [p * 4 + q div 16, (q mod 16) * 16 + r div 4]"
| "octets [p, q] = [p * 4 + q div 16]"
| "octets [p] = []"
| "octets [] = []"

definition atob :: "string \<Rightarrow> js_error + string" where
  "atob base64 =
     (let d = strip_padding (filter (\<lambda>c. \<not> ascii_whitespace c) base64)
      in if length d mod 4 = 1 then Inl InvalidCharacterError
         else (case those (map b64_index d) of
                 None \<Rightarrow> Inl InvalidCharacterError
               | Some ix \<Rightarrow> Inr (map char_of (octets ix))))"

subsection \<open>\<^verbatim>\<open>LiveClient.encode\<close> and \<^verbatim>\<open>LiveClient.decode\<close>\<close>

text \<open>
  \<^verbatim>\<open>encode\<close> appends \<^verbatim>\<open>String.fromCharCode(bytes[i])\<close> to \<^verbatim>\<open>binary\<close> for every index in
  turn and returns \<^verbatim>\<open>btoa(binary)\<close>; the loop is the recursion \<open>encode_loop\<close> with the string
  built so far as accumulator.
\<close>

definition fromCharCode :: "8 word \<Rightarrow> char" where
  "fromCharCode b = char_of (unat b)"

fun encode_loop :: "8 word list \<Rightarrow> string \<Rightarrow> string" where
  "encode_loop [] binary = binary"
| "encode_loop (b # bytes) binary = encode_loop bytes (binary @ [fromCharCode b])"

definition encode :: "8 word list \<Rightarrow> string" where
  "encode bytes = btoa (encode_loop bytes [])"

text \<open>
  \<^verbatim>\<open>decode\<close> stores \<^verbatim>\<open>binaryString.charCodeAt(i)\<close> into a fresh \<^verbatim>\<open>Uint8Array\<close> of the
  string's length; an exception of \<^verbatim>\<open>atob\<close> propagates.
\<close>

definition charCodeAt :: "char \<Rightarrow> nat" where
  "charCodeAt c = of_char c"

definition decode :: "string \<Rightarrow> js_error + 8 word list" where
  "decode base64 =
     (case atob base64 of
        Inl e \<Rightarrow> Inl e
      | Inr binaryString \<Rightarrow> Inr (map (\<lambda>c. of_nat (charCodeAt c)) binaryString))"

subsection \<open>JavaScript numbers of the audio samples\<close>

text \<open>
  A sample of a \<^verbatim>\<open>Float32Array\<close> is a finite binary fraction, an infinity or NaN. Finite
  values are kept as rationals and the arithmetic on them is exact. That agrees with the
  double arithmetic of the program on every value it meets: a clamped Float32 sample has a
  24-bit significand, so its product with \<^verbatim>\<open>0x8000\<close> or \<^verbatim>\<open>0x7FFF\<close> needs at most 39 bits and
  is computed without rounding; a 16-bit integer divided by \<^verbatim>\<open>32768.0\<close> is a binary fraction
  that a Float32 holds exactly. The sign of zero is dropped: no operation used here tells
  the two zeros apart.
\<close>

datatype js_number = Finite rat | PosInf | NegInf | NaN

fun math_min :: "js_number \<Rightarrow> js_number \<Rightarrow> js_number" where
  "math_min NaN y = NaN"
| "math_min x NaN = NaN"
| "math_min NegInf y = NegInf"
| "math_min x NegInf = NegInf"
| "math_min PosInf y = y"
| "math_min x PosInf = x"
| "math_min (Finite a) (Finite b) = Finite (min a b)"

fun math_max :: "js_number \<Rightarrow> js_number \<Rightarrow> js_number" where
  "math_max NaN y = NaN"
| "math_max x NaN = NaN"
| "math_max PosInf y = PosInf"
| "math_max x PosInf = PosInf"
| "math_max NegInf y = y"
| "math_max x NegInf = x"
| "math_max (Finite a) (Finite b) = Finite (max a b)"

text \<open>The comparison \<^verbatim>\<open>x < y\<close>: false as soon as one side is NaN.\<close>

fun js_less :: "js_number \<Rightarrow> js_number \<Rightarrow> bool" where
  "js_less NaN y = False"
| "js_less x NaN = False"
| "js_less (Finite a) (Finite b) = (a < b)"
| "js_less x NegInf = False"
| "js_less NegInf y = True"
| "js_less PosInf y = False"
| "js_less x PosInf = True"

fun js_sign :: "js_number \<Rightarrow> int" where
  "js_sign (Finite a) = sgn \<lfloor>sgn a\<rfloor>"
| "js_sign PosInf = 1"
| "js_sign NegInf = - 1"
| "js_sign NaN = 0"

text \<open>The product \<^verbatim>\<open>x * y\<close>: an infinity times zero is NaN.\<close>

fun js_times :: "js_number \<Rightarrow> js_number \<Rightarrow> js_number" where
  "js_times NaN y = NaN"
| "js_times x NaN = NaN"
| "js_times (Finite a) (Finite b) = Finite (a * b)"
| "js_times x y =
     (if js_sign x * js_sign y = 0 then NaN
      else if js_sign x * js_sign y > 0 then PosInf else NegInf)"

text \<open>
  Storing a number into an \<^verbatim>\<open>Int16Array\<close> applies \<^verbatim>\<open>ToInt16\<close>: NaN and the infinities become
  0, a finite number is truncated toward zero and reduced modulo \<open>2\<^sup>1\<^sup>6\<close>.
\<close>

definition trunc :: "rat \<Rightarrow> int" where
  "trunc r = (if r < 0 then - \<lfloor>- r\<rfloor> else \<lfloor>r\<rfloor>)"

fun to_int16 :: "js_number \<Rightarrow> 16 word" where
  "to_int16 (Finite r) = word_of_int (trunc r)"
| "to_int16 x = 0"

subsection \<open>\<^verbatim>\<open>LiveClient.createBlob\<close>\<close>

record blob =
  blob_data :: string
  blob_mimeType :: string

text \<open>The body of the loop of \<^verbatim>\<open>createBlob\<close>: the value stored into \<^verbatim>\<open>int16[i]\<close>.\<close>

definition pcm_sample :: "js_number \<Rightarrow> 16 word" where
  "pcm_sample x =
     (let s = math_max (Finite (- 1)) (math_min (Finite 1) x)
      in to_int16 (if js_less s (Finite 0) then js_times s (Finite 32768)
                   else js_times s (Finite 32767)))"

text \<open>
  \<^verbatim>\<open>new Uint8Array(int16.buffer)\<close> views the same memory as bytes. The byte order is the
  platform's; it is little-endian on every platform that runs a browser.
\<close>

definition int16_bytes :: "16 word list \<Rightarrow> 8 word list" where
  "int16_bytes ws = concat (map (\<lambda>w. [ucast w, ucast (drop_bit 8 w)]) ws)"

definition createBlob :: "js_number list \<Rightarrow> blob" where
  "createBlob data =
     \<lparr>blob_data = encode (int16_bytes (map pcm_sample data)),
      blob_mimeType = ''audio/pcm;rate=16000''\<rparr>"

text \<open>
  The conversion in the words of the specification: clamp the sample to \<open>[-1, 1]\<close>, scale a
  negative value by \<^verbatim>\<open>0x8000\<close> and any other by \<^verbatim>\<open>0x7FFF\<close>, truncate toward zero. Clamping
  sends the infinities to the bounds; NaN, which no clamping changes, counts as 0, the value
  an \<^verbatim>\<open>Int16Array\<close> stores for it.
\<close>

fun clamp_unit :: "js_number \<Rightarrow> rat" where
  "clamp_unit (Finite r) = max (- 1) (min 1 r)"
| "clamp_unit PosInf = 1"
| "clamp_unit NegInf = - 1"
| "clamp_unit NaN = 0"

definition scaled_sample :: "js_number \<Rightarrow> int" where
  "scaled_sample x =
     (let c = clamp_unit x in trunc (if c < 0 then c * 32768 else c * 32767))"

text \<open>The two bytes of a 16-bit two's complement value, low byte first.\<close>

definition le16_bytes :: "int \<Rightarrow> 8 word list" where
  "le16_bytes v = [word_of_int (v mod 256), word_of_int ((v div 256) mod 256)]"

subsection \<open>\<^verbatim>\<open>LiveClient.decodeAudioData\<close>\<close>

record audio_buffer =
  numberOfChannels :: nat
  buf_length :: nat
  buf_sampleRate :: nat
  channelData :: "rat list list"

text \<open>
  \<^verbatim>\<open>new Int16Array(data.buffer)\<close> throws a \<^verbatim>\<open>RangeError\<close> when the byte length is odd;
  otherwise element \<open>i\<close> is made of the bytes \<open>2i\<close> (low) and \<open>2i + 1\<close> (high). The array
  \<^verbatim>\<open>data\<close> comes from \<^verbatim>\<open>decode\<close>, which allocates it afresh, so it spans its whole buffer.
\<close>

fun int16_elems :: "8 word list \<Rightarrow> 16 word list" where
  "int16_elems (lo # hi # rest) = word_of_nat (unat lo + 256 * unat hi) # int16_elems rest"
| "int16_elems bytes = []"

definition int16_view :: "8 word list \<Rightarrow> js_error + 16 word list" where
  "int16_view bytes = (if odd (length bytes) then Inl RangeError else Inr (int16_elems bytes))"

text \<open>
  \<^verbatim>\<open>BaseAudioContext.createBuffer\<close> is the platform's. The Web Audio API has it throw a
  \<^verbatim>\<open>NotSupportedError\<close> when an argument is zero or outside its nominal range; a new
  buffer holds silence. The number of frames has no upper limit. For the number of
  channels and the sample rate the limits are the implementation's, but every
  implementation has to accept 1 to 32 channels and the rates from 8000 to 96000. These
  are the ranges taken here: what is proved of a buffer that \<^verbatim>\<open>createBuffer\<close> returns
  holds in every browser, and the program only ever asks for one channel at 24000.
\<close>

definition supported_channels :: "nat \<Rightarrow> bool" where
  "supported_channels numChannels \<longleftrightarrow> 1 \<le> numChannels \<and> numChannels \<le> 32"

definition supported_sampleRate :: "nat \<Rightarrow> bool" where
  "supported_sampleRate sampleRate \<longleftrightarrow> 8000 \<le> sampleRate \<and> sampleRate \<le> 96000"

definition createBuffer :: "nat \<Rightarrow> nat \<Rightarrow> nat \<Rightarrow> js_error + audio_buffer" where
  "createBuffer numChannels frames sampleRate =
     (if \<not> supported_channels numChannels \<or> frames = 0 \<or> \<not> supported_sampleRate sampleRate
      then Inl NotSupportedError
      else Inr \<lparr>numberOfChannels = numChannels, buf_length = frames,
                buf_sampleRate = sampleRate,
                channelData = replicate numChannels (replicate frames 0)\<rparr>)"

text \<open>
  The frame count \<^verbatim>\<open>dataInt16.length / numChannels\<close> is passed to \<^verbatim>\<open>createBuffer\<close>, which
  takes an unsigned integer and so drops a fraction; the writes of the inner loop beyond
  the buffer's length have no effect. The two loops fill channel \<open>c\<close>, frame \<open>i\<close> with
  \<^verbatim>\<open>dataInt16[i * numChannels + c] / 32768.0\<close>.
\<close>

definition decodeAudioData :: "8 word list \<Rightarrow> nat \<Rightarrow> nat \<Rightarrow> js_error + audio_buffer" where
  "decodeAudioData data sampleRate numChannels =
     (case int16_view data of
        Inl e \<Rightarrow> Inl e
      | Inr dataInt16 \<Rightarrow>
          (let frameCount = length dataInt16 div numChannels
           in case createBuffer numChannels frameCount sampleRate of
                Inl e \<Rightarrow> Inl e
              | Inr buffer \<Rightarrow>
                  Inr (buffer\<lparr>channelData :=
                    map (\<lambda>c. map (\<lambda>i. of_int (sint (dataInt16 ! (i * numChannels + c))) / 32768)
                               [0..<frameCount])
                        [0..<numChannels]\<rparr>)))"

text \<open>The little-endian signed 16-bit value of two bytes, in the words of the specification.\<close>

definition s16_le :: "8 word \<Rightarrow> 8 word \<Rightarrow> int" where
  "s16_le lo hi =
     (let v = uint lo + 256 * uint hi in if v < 32768 then v else v - 65536)"

subsection \<open>Server messages\<close>

text \<open>
  The fields of \<^verbatim>\<open>LiveServerMessage\<close> that \<^verbatim>\<open>handleMessage\<close> reads. A field that the code
  reaches through \<^verbatim>\<open>?.\<close> or tests for truth is optional here; \<^verbatim>\<open>turnComplete\<close> and
  \<^verbatim>\<open>interrupted\<close> are only tested for truth, so an absent flag is \<^const>\<open>False\<close>. The types of
  the messages are those of the library \<^verbatim>\<open>@google/genai\<close>, where the text of a
  transcription, the list of function calls of a tool call, and the id, the name and the
  arguments object of a function call are all optional; they are optional here, and the
  code that reads them without a test meets the absent value as JavaScript does. The
  three arguments of a function call are strings when present, as the tool declaration
  \<^verbatim>\<open>explanationTool\<close> says.
\<close>

record inline_data =
  inline_payload :: "string option"

record part =
  inlineData :: "inline_data option"

record content =
  parts :: "part list option"

record transcription =
  transcript :: "string option"

record server_content =
  modelTurn :: "content option"
  inputTranscription :: "transcription option"
  outputTranscription :: "transcription option"
  turnComplete :: bool
  interrupted :: bool

record call_arguments =
  arg_botTranslation :: "string option"
  arg_userOriginal :: "string option"
  arg_userEnglishTranslation :: "string option"

record function_call =
  call_id :: "string option"
  call_name :: "string option"
  call_args :: "call_arguments option"

record tool_call =
  functionCalls :: "function_call list option"

record live_server_message =
  serverContent :: "server_content option"
  toolCall :: "tool_call option"

subsection \<open>Effects\<close>

record explanation_data =
  botTranslation :: string
  userOriginal :: string
  userEnglishTranslation :: string

record function_response =
  response_id :: "string option"
  response_name :: "string option"
  response_result :: string

type_synonym source_id = nat

text \<open>
  The callbacks of \<^verbatim>\<open>LiveClientCallbacks\<close>, the calls on the session, on the playback
  sources and on the other platform objects, and the console. A callback returns normally
  and does not call back into the client.
\<close>

datatype 't effect =
    OnInputTranscription string
  | OnOutputTranscription string
  | OnExplanation explanation_data
  | OnTurnComplete
  | OnConnected
  | OnDisconnected
  | OnError js_error
  | SendRealtimeInput blob
  | SendToolResponse function_response
  | SourceStart source_id 't audio_buffer
  | SourceStop source_id
  | SessionClose
  | TracksStop
  | StreamSourceDisconnect
  | ProcessorDisconnect
  | ContextClose nat
  | GetUserMedia
  | NewAudioContext nat
  | ContextResume nat
  | LiveConnect string
  | SetTimeout nat
  | ConsoleError string

subsection \<open>The state of a \<^verbatim>\<open>LiveClient\<close>\<close>

datatype context_state = Suspended | Running | Closed

text \<open>
  An \<^verbatim>\<open>AudioContext\<close>: its sample rate, its clock and its state. Times are values of any
  linearly ordered type with an addition and a zero; nothing else is assumed of them, so
  what is proved holds for the program's double arithmetic as it does for exact numbers.
\<close>

record 't audio_context =
  ctx_sampleRate :: nat
  currentTime :: 't
  ctx_state :: context_state

datatype gain_node = GainNode
datatype media_stream = MediaStream
datatype stream_source = MediaStreamAudioSourceNode
datatype script_processor = ScriptProcessorNode
datatype live_session = LiveSession

text \<open>
  The private fields of the class, in the order of their declaration. The \<^verbatim>\<open>Set\<close> of
  playback sources is the list of its members in insertion order, which is the order
  \<^verbatim>\<open>forEach\<close> visits them in. A playback source is known by its number: \<open>sourcesCreated\<close>
  counts the calls of \<^verbatim>\<open>createBufferSource\<close> so far and is not a field of the class but
  the identity of the objects it made.
\<close>

record 't live_client =
  inputAudioContext :: "'t audio_context option"
  outputAudioContext :: "'t audio_context option"
  inputNode :: "gain_node option"
  outputNode :: "gain_node option"
  mediaStream :: "media_stream option"
  scriptProcessor :: "script_processor option"
  source :: "stream_source option"
  nextStartTime :: 't
  sources :: "source_id list"
  currentInputTranscription :: string
  currentOutputTranscription :: string
  session :: "live_session option"
  isConnected :: bool
  language :: string
  sourcesCreated :: nat

definition new_LiveClient :: "string \<Rightarrow> ('t::{linorder,plus,zero}) live_client" where
  "new_LiveClient lang =
     \<lparr>inputAudioContext = None, outputAudioContext = None, inputNode = None,
      outputNode = None, mediaStream = None, scriptProcessor = None, source = None,
      nextStartTime = 0, sources = [], currentInputTranscription = [],
      currentOutputTranscription = [], session = None, isConnected = False,
      language = lang, sourcesCreated = 0\<rparr>"

definition set_add :: "'a \<Rightarrow> 'a list \<Rightarrow> 'a list" where
  "set_add x xs = (if x \<in> set xs then xs else xs @ [x])"

subsection \<open>\<^verbatim>\<open>LiveClient.handleMessage\<close>\<close>

text \<open>\<^verbatim>\<open>message.serverContent?.modelTurn?.parts?.[0]?.inlineData?.data\<close>\<close>

definition base64Audio :: "live_server_message \<Rightarrow> string option" where
  "base64Audio message =
     (case serverContent message of
        None \<Rightarrow> None
      | Some sc \<Rightarrow>
          (case modelTurn sc of
             None \<Rightarrow> None
           | Some mt \<Rightarrow>
               (case parts mt of
                  None \<Rightarrow> None
                | Some [] \<Rightarrow> None
                | Some (p # ps) \<Rightarrow>
                    (case inlineData p of
                       None \<Rightarrow> None
                     | Some d \<Rightarrow> inline_payload d))))"

text \<open>
  The audio block. The guard needs a non-empty string and both the output context and the
  output node. \<^verbatim>\<open>nextStartTime\<close> is raised to the context's clock before the \<^verbatim>\<open>try\<close>; an
  exception of \<^verbatim>\<open>decode\<close> or \<^verbatim>\<open>decodeAudioData\<close> is caught and logged. \<open>duration\<close> is the
  platform's \<^verbatim>\<open>AudioBuffer.duration\<close>.
\<close>

definition handle_audio ::
  "(audio_buffer \<Rightarrow> 't) \<Rightarrow> ('t::{linorder,plus,zero}) live_client \<Rightarrow> live_server_message
     \<Rightarrow> 't live_client \<times> 't effect list" where
  "handle_audio duration s message =
     (case (base64Audio message, outputAudioContext s, outputNode s) of
        (Some b64, Some ctx, Some node) \<Rightarrow>
          if b64 = [] then (s, [])
          else
            (let s1 = s\<lparr>nextStartTime := max (nextStartTime s) (currentTime ctx)\<rparr>
             in case decode b64 of
                  Inl e \<Rightarrow> (s1, [ConsoleError ''Audio Decode Error''])
                | Inr bytes \<Rightarrow>
                    (case decodeAudioData bytes 24000 1 of
                       Inl e \<Rightarrow> (s1, [ConsoleError ''Audio Decode Error''])
                     | Inr audioBuffer \<Rightarrow>
                         (s1\<lparr>nextStartTime := nextStartTime s1 + duration audioBuffer,
                             sources := set_add (sourcesCreated s1) (sources s1),
                             sourcesCreated := Suc (sourcesCreated s1)\<rparr>,
                          [SourceStart (sourcesCreated s1) (nextStartTime s1) audioBuffer])))
      | _ \<Rightarrow> (s, []))"

text \<open>
  The two transcription blocks append \<^verbatim>\<open>.text\<close> of the transcription to the accumulator
  with \<^verbatim>\<open>+=\<close>. The text is not tested: when it is absent, the string concatenation turns
  \<^verbatim>\<open>undefined\<close> into the nine characters \<^verbatim>\<open>undefined\<close>.
\<close>

definition js_string :: "string option \<Rightarrow> string" where
  "js_string v = (case v of None \<Rightarrow> ''undefined'' | Some t \<Rightarrow> t)"

definition handle_inputTranscription ::
  "'t live_client \<Rightarrow> live_server_message \<Rightarrow> 't live_client \<times> 't effect list" where
  "handle_inputTranscription s message =
     (case serverContent message of
        None \<Rightarrow> (s, [])
      | Some sc \<Rightarrow>
          (case inputTranscription sc of
             None \<Rightarrow> (s, [])
           | Some t \<Rightarrow>
               (let s1 = s\<lparr>currentInputTranscription :=
                             currentInputTranscription s @ js_string (transcript t)\<rparr>
                in (s1, [OnInputTranscription (currentInputTranscription s1)]))))"

definition handle_outputTranscription ::
  "'t live_client \<Rightarrow> live_server_message \<Rightarrow> 't live_client \<times> 't effect list" where
  "handle_outputTranscription s message =
     (case serverContent message of
        None \<Rightarrow> (s, [])
      | Some sc \<Rightarrow>
          (case outputTranscription sc of
             None \<Rightarrow> (s, [])
           | Some t \<Rightarrow>
               (let s1 = s\<lparr>currentOutputTranscription :=
                             currentOutputTranscription s @ js_string (transcript t)\<rparr>
                in (s1, [OnOutputTranscription (currentOutputTranscription s1)]))))"

text \<open>\<^verbatim>\<open>value || ''\<close> for an optional string: absent and empty both give the empty string.\<close>

definition or_empty :: "string option \<Rightarrow> string" where
  "or_empty v = (case v of None \<Rightarrow> [] | Some t \<Rightarrow> if t = [] then [] else t)"

text \<open>
  The loop over \<^verbatim>\<open>message.toolCall.functionCalls\<close>; it changes no field of the client. For
  a call named \<^verbatim>\<open>provideBilingualDetails\<close> the three fields are read from \<^verbatim>\<open>fc.args\<close>
  without a test of the object: when the call has no arguments object, the first read
  throws a \<^verbatim>\<open>TypeError\<close>, which ends the loop. The result is the effects up to there and
  the exception, if any. An exception of \<^verbatim>\<open>sendToolResponse\<close> is swallowed by the inner
  \<^verbatim>\<open>try\<close>; the effect recorded is the call.
\<close>

fun toolCall_loop ::
  "'t live_client \<Rightarrow> function_call list \<Rightarrow> 't effect list \<times> js_error option" where
  "toolCall_loop s [] = ([], None)"
| "toolCall_loop s (fc # fcs) =
     (if call_name fc = Some ''provideBilingualDetails''
      then (case call_args fc of
              None \<Rightarrow> ([], Some TypeError)
            | Some args \<Rightarrow>
                (case toolCall_loop s fcs of
                   (later, thrown) \<Rightarrow>
                     (OnExplanation
                        \<lparr>botTranslation = or_empty (arg_botTranslation args),
                         userOriginal = or_empty (arg_userOriginal args),
                         userEnglishTranslation = or_empty (arg_userEnglishTranslation args)\<rparr>
                      # (case session s of
                           None \<Rightarrow> []
                         | Some sess \<Rightarrow>
                             [SendToolResponse
                                \<lparr>response_id = call_id fc, response_name = call_name fc,
                                 response_result = ''ok''\<rparr>])
                      @ later,
                      thrown)))
      else toolCall_loop s fcs)"

text \<open>
  The tool-call block: nothing without a tool call; with a tool call that has no list of
  function calls, the \<^verbatim>\<open>for\<close> \<^verbatim>\<open>of\<close> statement throws a \<^verbatim>\<open>TypeError\<close> at once.
\<close>

definition handle_toolCall ::
  "'t live_client \<Rightarrow> live_server_message \<Rightarrow> 't effect list \<times> js_error option" where
  "handle_toolCall s message =
     (case toolCall message of
        None \<Rightarrow> ([], None)
      | Some tc \<Rightarrow>
          (case functionCalls tc of
             None \<Rightarrow> ([], Some TypeError)
           | Some fcs \<Rightarrow> toolCall_loop s fcs))"

definition handle_turnComplete ::
  "'t live_client \<Rightarrow> live_server_message \<Rightarrow> 't live_client \<times> 't effect list" where
  "handle_turnComplete s message =
     (case serverContent message of
        None \<Rightarrow> (s, [])
      | Some sc \<Rightarrow>
          if turnComplete sc
          then (s\<lparr>currentInputTranscription := [], currentOutputTranscription := []\<rparr>,
                [OnTurnComplete])
          else (s, []))"

definition handle_interrupted ::
  "('t::{linorder,plus,zero}) live_client \<Rightarrow> live_server_message
     \<Rightarrow> 't live_client \<times> 't effect list" where
  "handle_interrupted s message =
     (case serverContent message of
        None \<Rightarrow> (s, [])
      | Some sc \<Rightarrow>
          if interrupted sc
          then (s\<lparr>sources := [], nextStartTime := 0, currentOutputTranscription := []\<rparr>,
                map SourceStop (sources s))
          else (s, []))"

text \<open>
  \<^verbatim>\<open>handleMessage\<close>: nothing when the client is not connected, otherwise the six blocks in
  the order of the source, all inside one \<^verbatim>\<open>try\<close>. The audio block catches its own
  exceptions and the transcription blocks raise none, so the one exception that reaches
  the outer \<^verbatim>\<open>catch\<close> is that of the tool-call block: it is logged, and the blocks for the
  completed turn and for the interruption, which come after, are not run; what the earlier
  blocks and the loop did up to the throw stays done. The one \<^verbatim>\<open>await\<close>, on
  \<^verbatim>\<open>decodeAudioData\<close>, is on a promise that is settled already (the function has no
  \<^verbatim>\<open>await\<close> of its own): the method gives way for one turn of the microtask queue only and
  is taken to run to its end before the next message is handled.
\<close>

definition handleMessage ::
  "(audio_buffer \<Rightarrow> 't) \<Rightarrow> ('t::{linorder,plus,zero}) live_client \<Rightarrow> live_server_message
     \<Rightarrow> 't live_client \<times> 't effect list" where
  "handleMessage duration s message =
     (if \<not> isConnected s then (s, [])
      else
        (let (s1, e1) = handle_audio duration s message;
             (s2, e2) = handle_inputTranscription s1 message;
             (s3, e3) = handle_outputTranscription s2 message;
             (e4, thrown) = handle_toolCall s3 message
         in case thrown of
              Some e \<Rightarrow> (s3, e1 @ e2 @ e3 @ e4 @ [ConsoleError ''Msg Error:''])
            | None \<Rightarrow>
                (let (s5, e5) = handle_turnComplete s3 message;
                     (s6, e6) = handle_interrupted s5 message
                 in (s6, e1 @ e2 @ e3 @ e4 @ e5 @ e6))))"

subsection \<open>\<^verbatim>\<open>LiveClient.disconnect\<close>\<close>

text \<open>\<^verbatim>\<open>closeContext\<close>: a context that is present and not yet closed is closed.\<close>

definition closeContext :: "'t audio_context option \<Rightarrow> 't effect list" where
  "closeContext ctx =
     (case ctx of
        None \<Rightarrow> []
      | Some c \<Rightarrow> if ctx_state c \<noteq> Closed then [ContextClose (ctx_sampleRate c)] else [])"

text \<open>
  \<^verbatim>\<open>disconnect\<close> clears \<^verbatim>\<open>isConnected\<close>, closes and drops the session, stops the tracks of
  the media stream, disconnects the stream source and the script processor, closes both
  audio contexts, calls \<^verbatim>\<open>onDisconnected\<close> and then drops the contexts, the stream, the
  source and the processor. The calls on the platform objects are taken not to throw.
\<close>

definition disconnect :: "'t live_client \<Rightarrow> 't live_client \<times> 't effect list" where
  "disconnect s =
     (s\<lparr>isConnected := False, session := None, inputAudioContext := None,
        outputAudioContext := None, mediaStream := None, source := None,
        scriptProcessor := None\<rparr>,
      (case session s of None \<Rightarrow> [] | Some sess \<Rightarrow> [SessionClose])
      @ (case mediaStream s of None \<Rightarrow> [] | Some ms \<Rightarrow> [TracksStop])
      @ (case source s of None \<Rightarrow> [] | Some src \<Rightarrow> [StreamSourceDisconnect])
      @ (case scriptProcessor s of None \<Rightarrow> [] | Some sp \<Rightarrow> [ProcessorDisconnect])
      @ closeContext (inputAudioContext s)
      @ closeContext (outputAudioContext s)
      @ [OnDisconnected])"

subsection \<open>\<^verbatim>\<open>LiveClient.startAudioStreaming\<close> and its audio-process callback\<close>

text \<open>
  \<^verbatim>\<open>startAudioStreaming\<close> returns at once unless the input context, the media stream and
  the session are all present; otherwise it creates the stream source and the script
  processor (the platform calls are taken not to throw).
\<close>

definition startAudioStreaming :: "'t live_client \<Rightarrow> 't live_client \<times> 't effect list" where
  "startAudioStreaming s =
     (if inputAudioContext s = None \<or> mediaStream s = None \<or> session s = None then (s, [])
      else (s\<lparr>source := Some MediaStreamAudioSourceNode,
              scriptProcessor := Some ScriptProcessorNode\<rparr>, []))"

text \<open>
  The function assigned to \<^verbatim>\<open>scriptProcessor.onaudioprocess\<close>, applied to the samples of
  channel 0 of the input buffer. An exception of \<^verbatim>\<open>sendRealtimeInput\<close> is swallowed; the
  effect recorded is the call.
\<close>

definition onaudioprocess ::
  "'t live_client \<Rightarrow> js_number list \<Rightarrow> 't live_client \<times> 't effect list" where
  "onaudioprocess s inputData =
     (if \<not> isConnected s \<or> session s = None then (s, [])
      else (s, [SendRealtimeInput (createBlob inputData)]))"

text \<open>The function given to \<^verbatim>\<open>setTimeout\<close> by \<^verbatim>\<open>connect\<close>.\<close>

definition streaming_timer :: "'t live_client \<Rightarrow> 't live_client \<times> 't effect list" where
  "streaming_timer s = (if isConnected s then startAudioStreaming s else (s, []))"

subsection \<open>\<^verbatim>\<open>LiveClient.connect\<close>\<close>

text \<open>
  What the platform answers to the calls of \<^verbatim>\<open>connect\<close>: the value of
  \<^verbatim>\<open>process.env.API_KEY\<close>, the outcome of \<^verbatim>\<open>getUserMedia\<close>, of the two \<^verbatim>\<open>AudioContext\<close>
  constructors, of the two \<^verbatim>\<open>resume\<close> calls (made only for a suspended context) and of
  \<^verbatim>\<open>ai.live.connect\<close>. \<^const>\<open>Inl\<close> (for \<^verbatim>\<open>resume\<close>: \<^const>\<open>Some\<close>) is the exception thrown.
  The remaining calls (\<^verbatim>\<open>createGain\<close>, \<^verbatim>\<open>connect\<close> on a node, the \<^verbatim>\<open>GoogleGenAI\<close>
  constructor, \<^verbatim>\<open>setTimeout\<close>) are taken not to throw. The \<^verbatim>\<open>await\<close>s are run to completion:
  no other method of the client runs in between.
\<close>

record 't connect_env =
  env_API_KEY :: "string option"
  env_getUserMedia :: "js_error + media_stream"
  env_inputContext :: "js_error + 't audio_context"
  env_outputContext :: "js_error + 't audio_context"
  env_resumeInput :: "js_error option"
  env_resumeOutput :: "js_error option"
  env_liveConnect :: "js_error + live_session"

text \<open>
  The body of the \<^verbatim>\<open>try\<close>, in stages. A stage takes the client and the effects so far; it
  ends with \<^const>\<open>Inr\<close> of both, or with \<^const>\<open>Inl\<close> of the exception together with the
  client and the effects at the throw.
\<close>

type_synonym 't progress = "'t live_client \<times> 't effect list"
type_synonym 't attempt = "(js_error \<times> 't progress) + 't progress"

definition and_then :: "'t attempt \<Rightarrow> ('t progress \<Rightarrow> 't attempt) \<Rightarrow> 't attempt" where
  "and_then r f = (case r of Inl failure \<Rightarrow> Inl failure | Inr p \<Rightarrow> f p)"

definition acquire_media :: "'t connect_env \<Rightarrow> 't progress \<Rightarrow> 't attempt" where
  "acquire_media env p =
     (case p of (s, es) \<Rightarrow>
        (case env_getUserMedia env of
           Inl e \<Rightarrow> Inl (e, s, es @ [GetUserMedia])
         | Inr stream \<Rightarrow> Inr (s\<lparr>mediaStream := Some stream\<rparr>, es @ [GetUserMedia])))"

definition create_contexts :: "'t connect_env \<Rightarrow> 't progress \<Rightarrow> 't attempt" where
  "create_contexts env p =
     (case p of (s, es) \<Rightarrow>
        (case env_inputContext env of
           Inl e \<Rightarrow> Inl (e, s, es @ [NewAudioContext 16000])
         | Inr ictx \<Rightarrow>
             (case env_outputContext env of
                Inl e \<Rightarrow>
                  Inl (e, s\<lparr>inputAudioContext := Some ictx\<rparr>,
                       es @ [NewAudioContext 16000, NewAudioContext 24000])
              | Inr octx \<Rightarrow>
                  Inr (s\<lparr>inputAudioContext := Some ictx, outputAudioContext := Some octx\<rparr>,
                       es @ [NewAudioContext 16000, NewAudioContext 24000]))))"

definition resume_input :: "'t connect_env \<Rightarrow> 't progress \<Rightarrow> 't attempt" where
  "resume_input env p =
     (case p of (s, es) \<Rightarrow>
        (case inputAudioContext s of
           None \<Rightarrow> Inr (s, es)
         | Some c \<Rightarrow>
             if ctx_state c = Suspended
             then (case env_resumeInput env of
                     Some e \<Rightarrow> Inl (e, s, es @ [ContextResume (ctx_sampleRate c)])
                   | None \<Rightarrow>
                       Inr (s\<lparr>inputAudioContext := Some (c\<lparr>ctx_state := Running\<rparr>)\<rparr>,
                            es @ [ContextResume (ctx_sampleRate c)]))
             else Inr (s, es)))"

definition resume_output :: "'t connect_env \<Rightarrow> 't progress \<Rightarrow> 't attempt" where
  "resume_output env p =
     (case p of (s, es) \<Rightarrow>
        (case outputAudioContext s of
           None \<Rightarrow> Inr (s, es)
         | Some c \<Rightarrow>
             if ctx_state c = Suspended
             then (case env_resumeOutput env of
                     Some e \<Rightarrow> Inl (e, s, es @ [ContextResume (ctx_sampleRate c)])
                   | None \<Rightarrow>
                       Inr (s\<lparr>outputAudioContext := Some (c\<lparr>ctx_state := Running\<rparr>)\<rparr>,
                            es @ [ContextResume (ctx_sampleRate c)]))
             else Inr (s, es)))"

definition open_session :: "'t connect_env \<Rightarrow> 't progress \<Rightarrow> 't attempt" where
  "open_session env p =
     (case p of (s, es) \<Rightarrow>
        (let s1 = s\<lparr>inputNode := Some GainNode, outputNode := Some GainNode\<rparr>
         in case env_liveConnect env of
              Inl e \<Rightarrow> Inl (e, s1, es @ [LiveConnect (language s)])
            | Inr sess \<Rightarrow>
                Inr (s1\<lparr>session := Some sess, isConnected := True\<rparr>,
                     es @ [LiveConnect (language s), OnConnected, SetTimeout 500])))"

definition connect_try :: "'t connect_env \<Rightarrow> 't live_client \<Rightarrow> 't attempt" where
  "connect_try env s =
     and_then (and_then (and_then (and_then (acquire_media env (s, []))
       (create_contexts env)) (resume_input env)) (resume_output env)) (open_session env)"

text \<open>
  \<^verbatim>\<open>connect\<close>: without an API key (unset or empty) it reports the error and returns; an
  exception of the body is logged, then \<^verbatim>\<open>disconnect\<close> runs, then \<^verbatim>\<open>onError\<close> gets the
  exception.
\<close>

definition api_key_missing :: "'t connect_env \<Rightarrow> bool" where
  "api_key_missing env = (case env_API_KEY env of None \<Rightarrow> True | Some k \<Rightarrow> k = [])"

definition connect :: "'t connect_env \<Rightarrow> 't live_client \<Rightarrow> 't live_client \<times> 't effect list" where
  "connect env s =
     (if api_key_missing env then (s, [OnError (Error ''API Key missing'')])
      else
        (case connect_try env s of
           Inr p \<Rightarrow> p
         | Inl (e, s1, es) \<Rightarrow>
             (case disconnect s1 of
                (s2, ds) \<Rightarrow> (s2, es @ [ConsoleError ''Connection Exception:''] @ ds @ [OnError e]))))"

text \<open>
  \<^verbatim>\<open>connect\<close> is an \<^verbatim>\<open>async\<close> method: at its first \<^verbatim>\<open>await\<close>, on \<^verbatim>\<open>getUserMedia\<close>, it
  gives way, and other methods of the client may run before it goes on. \<open>connect_resumed\<close>
  is the method from the moment the promise of \<^verbatim>\<open>getUserMedia\<close> is settled to its end,
  run on the client as it is at that moment; \<^const>\<open>connect\<close> is the request followed by
  \<open>connect_resumed\<close> on the unchanged client. Nothing between the \<^verbatim>\<open>await\<close> and the
  assignment of \<^verbatim>\<open>isConnected\<close> tests whether \<^verbatim>\<open>disconnect\<close> has run in the meantime.
\<close>

definition settle_media :: "'t connect_env \<Rightarrow> 't progress \<Rightarrow> 't attempt" where
  "settle_media env p =
     (case p of (s, es) \<Rightarrow>
        (case env_getUserMedia env of
           Inl e \<Rightarrow> Inl (e, s, es)
         | Inr stream \<Rightarrow> Inr (s\<lparr>mediaStream := Some stream\<rparr>, es)))"

text \<open>An attempt with one more effect in front of its effects.\<close>

definition preceded :: "'t effect \<Rightarrow> 't attempt \<Rightarrow> 't attempt" where
  "preceded e r =
     (case r of Inl (x, s, es) \<Rightarrow> Inl (x, s, e # es) | Inr (s, es) \<Rightarrow> Inr (s, e # es))"

definition connect_resumed ::
  "'t connect_env \<Rightarrow> 't live_client \<Rightarrow> 't live_client \<times> 't effect list" where
  "connect_resumed env s =
     (case and_then (and_then (and_then (and_then (settle_media env (s, []))
             (create_contexts env)) (resume_input env)) (resume_output env)) (open_session env) of
        Inr p \<Rightarrow> p
      | Inl (e, s1, es) \<Rightarrow>
          (case disconnect s1 of
             (s2, ds) \<Rightarrow> (s2, es @ [ConsoleError ''Connection Exception:''] @ ds @ [OnError e])))"

subsection \<open>Events after a connection\<close>

text \<open>
  What happens to a client between \<^verbatim>\<open>connect\<close> and \<^verbatim>\<open>disconnect\<close>: a message of the
  server, a buffer of microphone samples, the clock of the output context moving on (it
  never moves back), and the \<^verbatim>\<open>ended\<close> event of a playback source, whose listener removes
  the source from the set.
\<close>

datatype 't event =
    ServerMessage live_server_message
  | AudioProcess "js_number list"
  | ClockAdvance 't
  | SourceEnded source_id

definition advance_clock :: "('t::linorder) \<Rightarrow> 't live_client \<Rightarrow> 't live_client" where
  "advance_clock t s =
     (case outputAudioContext s of
        None \<Rightarrow> s
      | Some c \<Rightarrow> s\<lparr>outputAudioContext := Some (c\<lparr>currentTime := max (currentTime c) t\<rparr>)\<rparr>)"

definition source_ended :: "source_id \<Rightarrow> 't live_client \<Rightarrow> 't live_client" where
  "source_ended sid s = s\<lparr>sources := removeAll sid (sources s)\<rparr>"

fun step ::
  "(audio_buffer \<Rightarrow> 't) \<Rightarrow> ('t::{linorder,plus,zero}) live_client \<Rightarrow> 't event
     \<Rightarrow> 't live_client \<times> 't effect list" where
  "step duration s (ServerMessage m) = handleMessage duration s m"
| "step duration s (AudioProcess inputData) = onaudioprocess s inputData"
| "step duration s (ClockAdvance t) = (advance_clock t s, [])"
| "step duration s (SourceEnded sid) = (source_ended sid s, [])"

fun run ::
  "(audio_buffer \<Rightarrow> 't) \<Rightarrow> ('t::{linorder,plus,zero}) live_client \<Rightarrow> 't event list
     \<Rightarrow> 't live_client \<times> 't effect list" where
  "run duration s [] = (s, [])"
| "run duration s (ev # evs) =
     (case step duration s ev of
        (s1, es1) \<Rightarrow> (case run duration s1 evs of (s2, es2) \<Rightarrow> (s2, es1 @ es2)))"

subsection \<open>The chat input and the language button\<close>

text \<open>
  The text typed into the chat input is a list of UTF-16 code units. \<^verbatim>\<open>String.trim\<close>
  removes white space and line terminators (as ECMAScript defines them) from both ends.
\<close>

definition js_whitespace :: "16 word \<Rightarrow> bool" where
  "js_whitespace u \<longleftrightarrow>
     u \<in> {0x0009, 0x000A, 0x000B, 0x000C, 0x000D, 0x0020, 0x00A0, 0x1680, 0x2000, 0x2001,
          0x2002, 0x2003, 0x2004, 0x2005, 0x2006, 0x2007, 0x2008, 0x2009, 0x200A, 0x2028,
          0x2029, 0x202F, 0x205F, 0x3000, 0xFEFF}"

definition js_trim :: "16 word list \<Rightarrow> 16 word list" where
  "js_trim text = rev (dropWhile js_whitespace (rev (dropWhile js_whitespace text)))"

record chat_input_props =
  isLiveActive :: bool
  isLoading :: bool

text \<open>
  \<^verbatim>\<open>handleSubmit\<close> of \<^verbatim>\<open>ChatInput\<close>: the argument of \<^verbatim>\<open>onSend\<close> when it is called, and the
  content of the input afterwards. An empty string is the only one that tests false.
\<close>

definition handleSubmit ::
  "chat_input_props \<Rightarrow> 16 word list \<Rightarrow> 16 word list option \<times> 16 word list" where
  "handleSubmit props input =
     (if js_trim input \<noteq> [] \<and> \<not> isLoading props \<and> \<not> isLiveActive props
      then (Some (js_trim input), [])
      else (None, input))"

text \<open>The attribute \<^verbatim>\<open>disabled\<close> of the text area.\<close>

definition textarea_disabled :: "chat_input_props \<Rightarrow> bool" where
  "textarea_disabled props \<longleftrightarrow> isLoading props \<or> isLiveActive props"

text \<open>
  The state of \<^verbatim>\<open>App\<close> that the header button and the chat input depend on, the props that
  \<^verbatim>\<open>App\<close> passes to \<^verbatim>\<open>ChatInput\<close>, and the language button: its attribute \<^verbatim>\<open>disabled\<close> and
  its \<^verbatim>\<open>onClick\<close>.
\<close>

record app_state =
  isLive :: bool
  app_isLoading :: bool
  showLangMenu :: bool

definition chat_input_of :: "app_state \<Rightarrow> chat_input_props" where
  "chat_input_of app = \<lparr>isLiveActive = isLive app, isLoading = app_isLoading app\<rparr>"

definition language_button_disabled :: "app_state \<Rightarrow> bool" where
  "language_button_disabled app = isLive app"

definition language_button_click :: "app_state \<Rightarrow> app_state" where
  "language_button_click app =
     (if \<not> isLive app then app\<lparr>showLangMenu := \<not> showLangMenu app\<rparr> else app)"

subsection \<open>Reachable states\<close>

text \<open>
  The states a client can be in. A new client is reachable; so is the result of
  \<^verbatim>\<open>disconnect\<close>, of an event, of the streaming timer, and of every stage of \<^verbatim>\<open>connect\<close>,
  whether the stage ends normally or throws. The stages are steps of their own, so the
  relation also covers a \<^verbatim>\<open>disconnect\<close> or an event that arrives while \<^verbatim>\<open>connect\<close> waits.
\<close>

definition outcome_state :: "'t attempt \<Rightarrow> 't live_client" where
  "outcome_state r = (case r of Inl (e, s, es) \<Rightarrow> s | Inr (s, es) \<Rightarrow> s)"

inductive reachable ::
  "(audio_buffer \<Rightarrow> 't) \<Rightarrow> ('t::{linorder,plus,zero}) live_client \<Rightarrow> bool"
  for duration :: "audio_buffer \<Rightarrow> 't" where
  reachable_new: "reachable duration (new_LiveClient lang)"
| reachable_disconnect:
    "reachable duration s \<Longrightarrow> reachable duration (fst (disconnect s))"
| reachable_step:
    "reachable duration s \<Longrightarrow> reachable duration (fst (step duration s ev))"
| reachable_timer:
    "reachable duration s \<Longrightarrow> reachable duration (fst (streaming_timer s))"
| reachable_media:
    "reachable duration s \<Longrightarrow> reachable duration (outcome_state (acquire_media env (s, es)))"
| reachable_contexts:
    "reachable duration s \<Longrightarrow> reachable duration (outcome_state (create_contexts env (s, es)))"
| reachable_resume_input:
    "reachable duration s \<Longrightarrow> reachable duration (outcome_state (resume_input env (s, es)))"
| reachable_resume_output:
    "reachable duration s \<Longrightarrow> reachable duration (outcome_state (resume_output env (s, es)))"
| reachable_session:
    "reachable duration s \<Longrightarrow> reachable duration (outcome_state (open_session env (s, es)))"

subsection \<open>Observations used in the statements\<close>

text \<open>What a message carries.\<close>

definition fragment_text :: "transcription option \<Rightarrow> string option" where
  "fragment_text t = (case t of None \<Rightarrow> None | Some tr \<Rightarrow> transcript tr)"

definition input_fragment :: "live_server_message \<Rightarrow> string option" where
  "input_fragment m =
     (case serverContent m of
        None \<Rightarrow> None
      | Some sc \<Rightarrow> fragment_text (inputTranscription sc))"

definition output_fragment :: "live_server_message \<Rightarrow> string option" where
  "output_fragment m =
     (case serverContent m of
        None \<Rightarrow> None
      | Some sc \<Rightarrow> fragment_text (outputTranscription sc))"

text \<open>
  What a message may lack. A transcription may come without its text; a tool call may come
  without its list of function calls, and a call of \<^verbatim>\<open>provideBilingualDetails\<close> without its
  arguments object. A message is complete when it lacks none of these.
\<close>

definition text_missing :: "transcription option \<Rightarrow> bool" where
  "text_missing t = (case t of None \<Rightarrow> False | Some tr \<Rightarrow> transcript tr = None)"

definition lacks_text :: "live_server_message \<Rightarrow> bool" where
  "lacks_text m =
     (case serverContent m of
        None \<Rightarrow> False
      | Some sc \<Rightarrow> text_missing (inputTranscription sc) \<or> text_missing (outputTranscription sc))"

definition lacks_arguments :: "function_call \<Rightarrow> bool" where
  "lacks_arguments fc \<longleftrightarrow> call_name fc = Some ''provideBilingualDetails'' \<and> call_args fc = None"

definition tool_call_fails :: "live_server_message \<Rightarrow> bool" where
  "tool_call_fails m =
     (case toolCall m of
        None \<Rightarrow> False
      | Some tc \<Rightarrow>
          (case functionCalls tc of
             None \<Rightarrow> True
           | Some fcs \<Rightarrow> list_ex lacks_arguments fcs))"

definition complete_message :: "live_server_message \<Rightarrow> bool" where
  "complete_message m \<longleftrightarrow> \<not> lacks_text m \<and> \<not> tool_call_fails m"

definition turn_complete :: "live_server_message \<Rightarrow> bool" where
  "turn_complete m = (case serverContent m of None \<Rightarrow> False | Some sc \<Rightarrow> turnComplete sc)"

definition is_interrupted :: "live_server_message \<Rightarrow> bool" where
  "is_interrupted m = (case serverContent m of None \<Rightarrow> False | Some sc \<Rightarrow> interrupted sc)"

text \<open>
  The audio chunk of a message: none when the message carries no inline data or an empty
  string, otherwise the outcome of \<^verbatim>\<open>decode\<close> followed by \<^verbatim>\<open>decodeAudioData\<close>.
\<close>

definition decoded_chunk :: "live_server_message \<Rightarrow> (js_error + audio_buffer) option" where
  "decoded_chunk m =
     (case base64Audio m of
        None \<Rightarrow> None
      | Some b64 \<Rightarrow>
          if b64 = [] then None
          else Some (case decode b64 of
                       Inl e \<Rightarrow> Inl e
                     | Inr bytes \<Rightarrow> decodeAudioData bytes 24000 1))"

text \<open>What a list of effects contains.\<close>

fun scheduled :: "'t effect list \<Rightarrow> ('t \<times> audio_buffer) list" where
  "scheduled [] = []"
| "scheduled (SourceStart sid start buf # es) = (start, buf) # scheduled es"
| "scheduled (e # es) = scheduled es"

fun started :: "'t effect list \<Rightarrow> source_id list" where
  "started [] = []"
| "started (SourceStart sid start buf # es) = sid # started es"
| "started (e # es) = started es"

fun stopped :: "'t effect list \<Rightarrow> source_id list" where
  "stopped [] = []"
| "stopped (SourceStop sid # es) = sid # stopped es"
| "stopped (e # es) = stopped es"

fun input_callbacks :: "'t effect list \<Rightarrow> string list" where
  "input_callbacks [] = []"
| "input_callbacks (OnInputTranscription t # es) = t # input_callbacks es"
| "input_callbacks (e # es) = input_callbacks es"

fun output_callbacks :: "'t effect list \<Rightarrow> string list" where
  "output_callbacks [] = []"
| "output_callbacks (OnOutputTranscription t # es) = t # output_callbacks es"
| "output_callbacks (e # es) = output_callbacks es"

fun is_tool_effect :: "'t effect \<Rightarrow> bool" where
  "is_tool_effect (OnExplanation d) = True"
| "is_tool_effect (SendToolResponse r) = True"
| "is_tool_effect e = False"

text \<open>The messages among the events, and the part of a list after the last element with a property.\<close>

fun messages_of :: "'t event list \<Rightarrow> live_server_message list" where
  "messages_of [] = []"
| "messages_of (ServerMessage m # evs) = m # messages_of evs"
| "messages_of (ev # evs) = messages_of evs"

definition since_last :: "('a \<Rightarrow> bool) \<Rightarrow> 'a list \<Rightarrow> 'a list" where
  "since_last P xs = rev (takeWhile (\<lambda>x. \<not> P x) (rev xs))"

definition fragments :: "(live_server_message \<Rightarrow> string option) \<Rightarrow> live_server_message list \<Rightarrow> string" where
  "fragments frag ms = concat (map (\<lambda>m. case frag m of None \<Rightarrow> [] | Some t \<Rightarrow> t) ms)"

fun client_input :: "'t event \<Rightarrow> bool" where
  "client_input (ServerMessage m) = True"
| "client_input (AudioProcess d) = True"
| "client_input ev = False"

fun interrupting :: "'t event \<Rightarrow> bool" where
  "interrupting (ServerMessage m) = is_interrupted m"
| "interrupting ev = False"

fun decode_failure :: "'t event \<Rightarrow> bool" where
  "decode_failure (ServerMessage m) = (case decoded_chunk m of Some (Inl e) \<Rightarrow> True | _ \<Rightarrow> False)"
| "decode_failure ev = False"

text \<open>
  The playback timeline in the words of the specification: a decoded chunk starts at the
  maximum of the clock and the end of the chunk scheduled before it, and ends after its
  duration. \<open>prev\<close> is the end of the chunk scheduled last, \<open>now\<close> the clock of the output
  context; a message without audio, or with audio that does not decode, schedules nothing.
\<close>

fun timeline ::
  "(audio_buffer \<Rightarrow> 't) \<Rightarrow> ('t::{linorder,plus,zero}) \<Rightarrow> 't \<Rightarrow> 't event list
     \<Rightarrow> ('t \<times> audio_buffer) list" where
  "timeline duration prev now [] = []"
| "timeline duration prev now (ClockAdvance t # evs) = timeline duration prev (max now t) evs"
| "timeline duration prev now (ServerMessage m # evs) =
     (case decoded_chunk m of
        Some (Inr buf) \<Rightarrow>
          (max now prev, buf) # timeline duration (max now prev + duration buf) now evs
      | _ \<Rightarrow> timeline duration prev now evs)"
| "timeline duration prev now (ev # evs) = timeline duration prev now evs"

text \<open>The end of the last chunk scheduled, and chunks that follow one another without overlap.\<close>

fun last_end :: "(audio_buffer \<Rightarrow> 't) \<Rightarrow> ('t::plus) \<Rightarrow> ('t \<times> audio_buffer) list \<Rightarrow> 't" where
  "last_end duration e [] = e"
| "last_end duration e ((start, buf) # cs) = last_end duration (start + duration buf) cs"

fun in_sequence ::
  "(audio_buffer \<Rightarrow> 't) \<Rightarrow> ('t::{linorder,plus}) \<Rightarrow> ('t \<times> audio_buffer) list \<Rightarrow> bool" where
  "in_sequence duration e [] = True"
| "in_sequence duration e ((start, buf) # cs) =
     (e \<le> start \<and> in_sequence duration (start + duration buf) cs)"

text \<open>
  The tool-call round trip in the words of the specification: for a call named
  \<^verbatim>\<open>provideBilingualDetails\<close> the explanation with absent fields replaced by the empty
  string, then one response with the call's id, its name and the result \<^verbatim>\<open>ok\<close>; for any
  other call nothing.
\<close>

definition absent_as_empty :: "string option \<Rightarrow> string" where
  "absent_as_empty v = (case v of None \<Rightarrow> [] | Some t \<Rightarrow> t)"

text \<open>A field of the arguments of a call; a call without an arguments object has none.\<close>

definition argument :: "(call_arguments \<Rightarrow> string option) \<Rightarrow> function_call \<Rightarrow> string option" where
  "argument field fc = (case call_args fc of None \<Rightarrow> None | Some args \<Rightarrow> field args)"

definition round_trip :: "function_call \<Rightarrow> 't effect list" where
  "round_trip fc =
     (if call_name fc = Some ''provideBilingualDetails''
      then [OnExplanation
              \<lparr>botTranslation = absent_as_empty (argument arg_botTranslation fc),
               userOriginal = absent_as_empty (argument arg_userOriginal fc),
               userEnglishTranslation =
                 absent_as_empty (argument arg_userEnglishTranslation fc)\<rparr>,
            SendToolResponse
              \<lparr>response_id = call_id fc, response_name = call_name fc,
               response_result = ''ok''\<rparr>]
      else [])"

subsection \<open>A successful connection, and example data\<close>

definition connect_succeeds :: "'t connect_env \<Rightarrow> 't live_client \<Rightarrow> bool" where
  "connect_succeeds env s =
     (\<not> api_key_missing env \<and> (case connect_try env s of Inl failure \<Rightarrow> False | Inr p \<Rightarrow> True))"

text \<open>
  Concrete data for the examples below, with rational times: a platform that grants
  everything, one without an API key, one whose \<^verbatim>\<open>ai.live.connect\<close> throws; a new client
  and the client after a successful \<^verbatim>\<open>connect\<close>; the duration of a buffer in seconds; and
  some messages.
\<close>

definition running_context :: "nat \<Rightarrow> rat audio_context" where
  "running_context rate = \<lparr>ctx_sampleRate = rate, currentTime = 0, ctx_state = Running\<rparr>"

definition good_env :: "rat connect_env" where
  "good_env =
     \<lparr>env_API_KEY = Some ''key'', env_getUserMedia = Inr MediaStream,
      env_inputContext = Inr (running_context 16000),
      env_outputContext = Inr (running_context 24000),
      env_resumeInput = None, env_resumeOutput = None,
      env_liveConnect = Inr LiveSession\<rparr>"

definition no_key_env :: "rat connect_env" where
  "no_key_env = good_env\<lparr>env_API_KEY := None\<rparr>"

definition refused_env :: "rat connect_env" where
  "refused_env = good_env\<lparr>env_liveConnect := Inl (Error ''refused'')\<rparr>"

definition fresh_client :: "rat live_client" where
  "fresh_client = new_LiveClient ''Hindi''"

definition connected_client :: "rat live_client" where
  "connected_client = fst (connect good_env fresh_client)"

definition seconds :: "audio_buffer \<Rightarrow> rat" where
  "seconds buf = of_nat (buf_length buf) / of_nat (buf_sampleRate buf)"

definition empty_content :: server_content where
  "empty_content =
     \<lparr>modelTurn = None, inputTranscription = None, outputTranscription = None,
      turnComplete = False, interrupted = False\<rparr>"

definition content_message :: "server_content \<Rightarrow> live_server_message" where
  "content_message sc = \<lparr>serverContent = Some sc, toolCall = None\<rparr>"

definition audio_message :: "string \<Rightarrow> live_server_message" where
  "audio_message b64 =
     content_message
       (empty_content\<lparr>modelTurn :=
          Some \<lparr>parts = Some [\<lparr>inlineData = Some \<lparr>inline_payload = Some b64\<rparr>\<rparr>]\<rparr>\<rparr>)"

definition input_message :: "string \<Rightarrow> live_server_message" where
  "input_message t =
     content_message (empty_content\<lparr>inputTranscription := Some \<lparr>transcript = Some t\<rparr>\<rparr>)"

definition output_message :: "string \<Rightarrow> live_server_message" where
  "output_message t =
     content_message (empty_content\<lparr>outputTranscription := Some \<lparr>transcript = Some t\<rparr>\<rparr>)"

definition interrupted_message :: live_server_message where
  "interrupted_message = content_message (empty_content\<lparr>interrupted := True\<rparr>)"

definition turn_complete_message :: live_server_message where
  "turn_complete_message = content_message (empty_content\<lparr>turnComplete := True\<rparr>)"

definition tool_message :: "function_call list \<Rightarrow> live_server_message" where
  "tool_message fcs = \<lparr>serverContent = None, toolCall = Some \<lparr>functionCalls = Some fcs\<rparr>\<rparr>"

definition details_call :: function_call where
  "details_call =
     \<lparr>call_id = Some ''c1'', call_name = Some ''provideBilingualDetails'',
      call_args = Some \<lparr>arg_botTranslation = Some ''Hello'', arg_userOriginal = None,
                        arg_userEnglishTranslation = Some []\<rparr>\<rparr>"

definition other_call :: function_call where
  "other_call =
     \<lparr>call_id = Some ''c2'', call_name = Some ''lookup'',
      call_args = Some \<lparr>arg_botTranslation = Some ''x'', arg_userOriginal = None,
                        arg_userEnglishTranslation = None\<rparr>\<rparr>"

text \<open>A call of \<^verbatim>\<open>provideBilingualDetails\<close> that carries no arguments object.\<close>

definition bare_call :: function_call where
  "bare_call =
     \<lparr>call_id = Some ''c0'', call_name = Some ''provideBilingualDetails'', call_args = None\<rparr>"

text \<open>
  A message that completes the turn and carries the interruption, with a tool call whose
  one call has no arguments object; and a message whose input transcription has no text.
\<close>

definition failing_closing_message :: live_server_message where
  "failing_closing_message =
     \<lparr>serverContent = Some (empty_content\<lparr>turnComplete := True, interrupted := True\<rparr>),
      toolCall = Some \<lparr>functionCalls = Some [bare_call]\<rparr>\<rparr>"

definition textless_input_message :: live_server_message where
  "textless_input_message =
     content_message (empty_content\<lparr>inputTranscription := Some \<lparr>transcript = None\<rparr>\<rparr>)"

text \<open>
  The client of a \<^verbatim>\<open>connect\<close> that was waiting for \<^verbatim>\<open>getUserMedia\<close> when \<^verbatim>\<open>disconnect\<close> ran
  and that went on afterwards.
\<close>

definition revived_client :: "rat live_client" where
  "revived_client = fst (connect_resumed good_env (fst (disconnect fresh_client)))"

definition refused_state :: "rat live_client" where
  "refused_state = outcome_state (connect_try refused_env fresh_client)"

definition interrupted_input_message :: "string \<Rightarrow> live_server_message" where
  "interrupted_input_message t =
     content_message
       (empty_content\<lparr>inputTranscription := Some \<lparr>transcript = Some t\<rparr>, interrupted := True\<rparr>)"

definition interrupted_audio_message :: "string \<Rightarrow> live_server_message" where
  "interrupted_audio_message b64 =
     content_message
       (empty_content\<lparr>modelTurn :=
          Some \<lparr>parts = Some [\<lparr>inlineData = Some \<lparr>inline_payload = Some b64\<rparr>\<rparr>]\<rparr>,
          interrupted := True\<rparr>)"

definition playing_client :: "rat live_client" where
  "playing_client =
     connected_client\<lparr>sources := [3, 5], nextStartTime := 7, sourcesCreated := 6,
       currentInputTranscription := ''in'', currentOutputTranscription := ''out''\<rparr>"

definition closing_message :: live_server_message where
  "closing_message =
     content_message
       (empty_content\<lparr>inputTranscription := Some \<lparr>transcript = Some ''!''\<rparr>,
          outputTranscription := Some \<lparr>transcript = Some ''ste''\<rparr>, turnComplete := True\<rparr>)"

definition two_frames :: audio_buffer where
  "two_frames =
     \<lparr>numberOfChannels = 1, buf_length = 2, buf_sampleRate = 24000,
      channelData = [[- 1, 32767 / 32768]]\<rparr>"

section \<open>Properties\<close>

subsection \<open>Base64\<close>

lemma index_of_nth:
  "distinct xs \<Longrightarrow> i < length xs \<Longrightarrow> index_of (xs ! i) xs = Some i"
proof (induction xs arbitrary: i)
  case Nil
  then show ?case by simp
next
  case (Cons y ys)
  show ?case
  proof (cases i)
    case 0
    then show ?thesis by simp
  next
    case (Suc j)
    with Cons.prems have "ys ! j \<noteq> y" "j < length ys" "distinct ys"
      by auto
    with Cons.IH [of j] Suc show ?thesis by simp
  qed
qed

lemma length_b64_alphabet: "length b64_alphabet = 64"
  by (simp add: b64_alphabet_def)

lemma distinct_b64_alphabet: "distinct b64_alphabet"
  by (simp add: b64_alphabet_def)

lemma b64_index_char: "i < 64 \<Longrightarrow> b64_index (b64_char i) = Some i"
  unfolding b64_index_def b64_char_def
  by (rule index_of_nth [OF distinct_b64_alphabet]) (simp add: length_b64_alphabet)

lemma b64_char_in_alphabet: "i < 64 \<Longrightarrow> b64_char i \<in> set b64_alphabet"
  unfolding b64_char_def by (rule nth_mem) (simp add: length_b64_alphabet)

lemma b64_alphabet_not_special:
  "c \<in> set b64_alphabet \<Longrightarrow> c \<noteq> CHR ''='' \<and> \<not> ascii_whitespace c"
  by (auto simp add: b64_alphabet_def ascii_whitespace_def)

lemma b64_char_plain: "i < 64 \<Longrightarrow> b64_char i \<noteq> CHR ''='' \<and> \<not> ascii_whitespace (b64_char i)"
  by (rule b64_alphabet_not_special) (rule b64_char_in_alphabet)

lemma sextets_bound: "\<forall>b \<in> set bs. b < 256 \<Longrightarrow> \<forall>x \<in> set (sextets bs). x < 64"
  by (induction bs rule: sextets.induct) auto

lemma octets_sextets: "\<forall>b \<in> set bs. b < 256 \<Longrightarrow> octets (sextets bs) = bs"
  by (induction bs rule: sextets.induct) auto

lemma length_sextets_mod: "length (sextets bs) mod 4 \<noteq> 1"
  by (induction bs rule: sextets.induct) auto

lemma padding_step: "(3 - (Suc (Suc (Suc n))) mod 3) mod 3 = (3 - n mod 3) mod (3::nat)"
  by (simp add: mod_Suc)

lemma length_btoa_mod: "(length (sextets bs) + (3 - length bs mod 3) mod 3) mod 4 = 0"
  by (induction bs rule: sextets.induct)
     (simp_all only: sextets.simps length_append list.size padding_step, simp_all)

lemma padding_le: "(3 - n mod 3) mod 3 \<le> (2::nat)"
proof -
  have "(3 - n mod 3) mod 3 < (3::nat)" by (rule mod_less_divisor) simp
  then show ?thesis by linarith
qed

lemma sextets_nonempty: "bs \<noteq> [] \<Longrightarrow> sextets bs \<noteq> []"
  by (induction bs rule: sextets.induct) auto

lemma those_b64:
  "\<forall>x \<in> set xs. x < 64 \<Longrightarrow> those (map b64_index (map b64_char xs)) = Some xs"
  by (induction xs) (auto simp: b64_index_char)

lemma last_body:
  assumes "\<forall>x \<in> set sx. x < 64" "sx \<noteq> []"
  shows "last (map b64_char sx) \<noteq> CHR ''=''"
proof -
  have "last (map b64_char sx) = b64_char (last sx)"
    using assms(2) by (simp add: last_map)
  moreover have "last sx < 64"
    using assms by simp
  ultimately show ?thesis
    using b64_char_plain by simp
qed

lemma strip_padding_body:
  assumes "\<forall>x \<in> set sx. x < 64" "k \<le> 2" "k > 0 \<Longrightarrow> sx \<noteq> []"
    "(length sx + k) mod 4 = 0"
  shows "strip_padding (map b64_char sx @ replicate k (CHR ''='')) = map b64_char sx"
proof -
  consider "k = 0" | "k = 1" | "k = 2"
    using assms(2) by linarith
  then show ?thesis
  proof cases
    case 1
    then show ?thesis
      using last_body [OF assms(1)]
      by (cases "sx = []") (simp_all add: strip_padding_def)
  next
    case 2
    then show ?thesis
      using last_body [OF assms(1)] assms(3) assms(4)
      by (simp add: strip_padding_def Let_def)
  next
    case 3
    then have "replicate k (CHR ''='') = [CHR ''='', CHR ''='']"
      by (simp add: numeral_2_eq_2)
    then show ?thesis
      using 3 last_body [OF assms(1)] assms(3) assms(4)
      by (simp add: strip_padding_def Let_def butlast_append)
  qed
qed

lemma filter_body:
  "\<forall>x \<in> set sx. x < 64 \<Longrightarrow>
   filter (\<lambda>c. \<not> ascii_whitespace c) (map b64_char sx @ replicate k (CHR ''=''))
     = map b64_char sx @ replicate k (CHR ''='')"
proof (rule filter_True)
  assume a: "\<forall>x \<in> set sx. x < 64"
  have eq: "\<not> ascii_whitespace (CHR ''='')"
    by (simp add: ascii_whitespace_def)
  show "\<forall>c \<in> set (map b64_char sx @ replicate k (CHR ''='')). \<not> ascii_whitespace c"
    using a eq by (auto simp: b64_char_plain)
qed

lemma atob_btoa: "atob (btoa s) = Inr s"
proof -
  define bs :: "nat list" where "bs = map of_char s"
  define sx where "sx = sextets bs"
  define k where "k = (3 - length bs mod 3) mod 3"
  have bs: "\<forall>b \<in> set bs. b < 256"
    by (simp add: bs_def)
  have sx: "\<forall>x \<in> set sx. x < 64"
    unfolding sx_def by (rule sextets_bound [OF bs])
  have k: "k \<le> 2"
    unfolding k_def by (rule padding_le)
  have ne: "k > 0 \<Longrightarrow> sx \<noteq> []"
    unfolding sx_def k_def by (rule sextets_nonempty) auto
  have len: "length (map b64_char sx) mod 4 \<noteq> 1"
    unfolding length_map sx_def by (rule length_sextets_mod)
  have tot: "(length sx + k) mod 4 = 0"
    unfolding sx_def k_def by (rule length_btoa_mod)
  have btoa: "btoa s = map b64_char sx @ replicate k (CHR ''='')"
    by (simp add: btoa_def b64_padding_def sx_def k_def bs_def)
  have strip: "strip_padding (filter (\<lambda>c. \<not> ascii_whitespace c) (btoa s)) = map b64_char sx"
    unfolding btoa
    by (simp only: filter_body [OF sx] strip_padding_body [OF sx k ne tot])
  have oct: "map char_of (octets sx) = s"
    unfolding sx_def octets_sextets [OF bs] by (simp add: bs_def comp_def)
  show ?thesis
    unfolding atob_def strip Let_def those_b64 [OF sx] using len
    by (simp add: oct)
qed

lemma encode_loop_map: "encode_loop bytes acc = acc @ map fromCharCode bytes"
  by (induction bytes arbitrary: acc) auto

lemma byte_char_byte: "of_nat (charCodeAt (fromCharCode b)) = (b :: 8 word)"
proof -
  have "unat b < 256"
    using unsigned_less [of b, where 'a=nat] by simp
  then show ?thesis
    by (simp add: charCodeAt_def fromCharCode_def)
qed

lemma decode_encode_bytes: "decode (encode b) = Inr b"
  by (simp add: decode_def encode_def atob_btoa encode_loop_map byte_char_byte comp_def)

subsection \<open>C8: \<^verbatim>\<open>decode\<close> inverts \<^verbatim>\<open>encode\<close>\<close>

text \<open>
  Claim C8. For every byte array \<open>b\<close>, decoding the base64 text that \<^verbatim>\<open>encode\<close> produces for
  \<open>b\<close> succeeds and gives \<open>b\<close> back; so \<^verbatim>\<open>encode\<close> followed by \<^verbatim>\<open>decode\<close> is the identity on
  byte arrays, and on the base64 texts of byte arrays \<^verbatim>\<open>decode\<close> followed by \<^verbatim>\<open>encode\<close> is
  the identity as well.
\<close>

theorem C8_decode_encode:
  "decode (encode b) = Inr b \<and>
   (case decode (encode b) of Inl e \<Rightarrow> False | Inr b' \<Rightarrow> encode b' = encode b)"
proof -
  have "decode (encode b) = Inr b"
    by (simp add: decode_def encode_def atob_btoa encode_loop_map byte_char_byte comp_def)
  then show ?thesis
    by simp
qed

subsection \<open>Sample conversions\<close>

lemma clamp_unit_bounds: "- 1 \<le> clamp_unit x \<and> clamp_unit x \<le> 1"
  by (cases x) auto

lemma pcm_sample_scaled: "pcm_sample x = word_of_int (scaled_sample x)"
  by (cases x) (auto simp: pcm_sample_def scaled_sample_def Let_def trunc_def min_def max_def)

lemma scaled_sample_bounds: "- 32768 \<le> scaled_sample x \<and> scaled_sample x \<le> 32767"
proof -
  define c where "c = clamp_unit x"
  have c: "- 1 \<le> c" "c \<le> 1"
    using clamp_unit_bounds [of x] by (simp_all add: c_def)
  show ?thesis
  proof (cases "c < 0")
    case True
    then have eq: "scaled_sample x = - \<lfloor>- (c * 32768)\<rfloor>"
      by (simp add: scaled_sample_def Let_def trunc_def c_def [symmetric] mult_less_0_iff)
    have "- (c * 32768) \<le> 32768" "0 \<le> - (c * 32768)"
      using c True by simp_all
    then have "\<lfloor>- (c * 32768)\<rfloor> \<le> 32768" "0 \<le> \<lfloor>- (c * 32768)\<rfloor>"
      by linarith+
    then show ?thesis
      unfolding eq by linarith
  next
    case False
    then have eq: "scaled_sample x = \<lfloor>c * 32767\<rfloor>"
      by (simp add: scaled_sample_def Let_def trunc_def c_def [symmetric] mult_less_0_iff)
    from False have "0 \<le> c * 32767" "c * 32767 \<le> 32767"
      using c by simp_all
    then have "0 \<le> \<lfloor>c * 32767\<rfloor>" "\<lfloor>c * 32767\<rfloor> \<le> 32767"
      by linarith+
    then show ?thesis
      unfolding eq by linarith
  qed
qed

lemma sint_word16:
  "- 32768 \<le> v \<Longrightarrow> v \<le> 32767 \<Longrightarrow> sint (word_of_int v :: 16 word) = v"
  by (simp add: signed_of_int signed_take_bit_int_eq_self)

lemma word8_mod: "(word_of_int (v mod 256) :: 8 word) = word_of_int v"
  by (simp add: word_of_int_eq_iff take_bit_eq_mod)

lemma low_byte: "(ucast (word_of_int v :: 16 word) :: 8 word) = word_of_int (v mod 256)"
  unfolding word8_mod by (rule bit_word_eqI) (auto simp: bit_simps)

lemma high_byte:
  "(ucast (drop_bit 8 (word_of_int v :: 16 word)) :: 8 word) = word_of_int ((v div 256) mod 256)"
  unfolding word8_mod
  by (rule bit_word_eqI)
     (auto simp: bit_simps drop_bit_eq_div [symmetric, where n=8 and a=v, simplified])

lemma int16_bytes_scaled:
  "int16_bytes (map pcm_sample data) = concat (map (\<lambda>x. le16_bytes (scaled_sample x)) data)"
  by (induction data)
     (simp_all add: int16_bytes_def le16_bytes_def pcm_sample_scaled low_byte high_byte)

lemma sint_int16_elem:
  "sint (word_of_nat (unat lo + 256 * unat hi) :: 16 word) = s16_le lo hi"
  for lo hi :: "8 word"
proof -
  have lo: "unat lo < 256"
    using unsigned_less [of lo, where 'a=nat] by simp
  have hi: "unat hi < 256"
    using unsigned_less [of hi, where 'a=nat] by simp
  define v where "v = unat lo + 256 * unat hi"
  have v: "v < 65536"
    using lo hi by (simp add: v_def)
  have iv: "int v = uint lo + 256 * uint hi"
    by (simp add: v_def)
  have u: "uint (word_of_nat v :: 16 word) = int v"
    using v by (simp add: uint_word_of_int take_bit_eq_mod unsigned_of_nat)
  have "sint (word_of_nat v :: 16 word) = signed_take_bit 15 (int v)"
    by (simp add: sint_uint u)
  also have "\<dots> = (if int v < 32768 then int v else int v - 65536)"
  proof -
    have upper: "(k + 32768) mod 65536 = k - 32768"
      if "32768 \<le> k" "k < 65536" for k :: int
    proof -
      have "k + 32768 = (k - 32768) + 65536"
        by linarith
      then have "(k + 32768) mod 65536 = ((k - 32768) + 65536) mod 65536"
        by (rule arg_cong)
      also have "\<dots> = (k - 32768) mod 65536"
        by (simp only: mod_add_self2)
      also have "\<dots> = k - 32768"
        using that by simp
      finally show ?thesis .
    qed
    show ?thesis
    proof (cases "int v < 32768")
      case True
      then show ?thesis
        by (simp add: signed_take_bit_int_eq_self)
    next
      case False
      with v upper [of "int v"] show ?thesis
        by (simp add: signed_take_bit_eq_take_bit_shift take_bit_eq_mod)
    qed
  qed
  finally show ?thesis
    unfolding v_def [symmetric] s16_le_def Let_def iv [symmetric] .
qed

lemma length_int16_elems: "length (int16_elems bytes) = length bytes div 2"
  by (induction bytes rule: int16_elems.induct) auto

lemma nth_int16_elems:
  "2 * i + 1 < length bytes \<Longrightarrow>
   int16_elems bytes ! i = word_of_nat (unat (bytes ! (2 * i)) + 256 * unat (bytes ! (2 * i + 1)))"
proof (induction bytes arbitrary: i rule: int16_elems.induct)
  case (1 lo hi rest)
  show ?case
  proof (cases i)
    case 0
    then show ?thesis by simp
  next
    case (Suc j)
    with 1 show ?thesis by simp
  qed
qed simp_all

lemma s16_le_bounds: "- 32768 \<le> s16_le lo hi \<and> s16_le lo hi \<le> 32767"
proof -
  define a b where "a = uint lo" and "b = uint hi"
  have "a < 256" "b < 256" "0 \<le> a" "0 \<le> b"
    using uint_bounded [of lo] uint_bounded [of hi] by (simp_all add: a_def b_def)
  then show ?thesis
    unfolding s16_le_def Let_def a_def [symmetric] b_def [symmetric] by auto
qed

lemma decoded_sample_bounds:
  "- 1 \<le> (of_int (s16_le lo hi) :: rat) / 32768 \<and> (of_int (s16_le lo hi) :: rat) / 32768 < 1"
proof -
  from s16_le_bounds [of lo hi]
  have "(- 32768 :: rat) \<le> of_int (s16_le lo hi)" "(of_int (s16_le lo hi) :: rat) \<le> 32767"
    by (metis of_int_le_iff of_int_numeral of_int_minus, metis of_int_le_iff of_int_numeral)
  then show ?thesis
    by (simp add: pos_le_divide_eq pos_divide_less_eq)
qed

subsection \<open>C5: the blob of \<^verbatim>\<open>createBlob\<close>\<close>

text \<open>
  Claim C5. For every input buffer, \<^verbatim>\<open>createBlob\<close> returns a blob whose MIME type is
  \<^verbatim>\<open>audio/pcm;rate=16000\<close> and whose payload is the base64 text of the bytes, low byte
  first, of the 16-bit values got from the samples by clamping to \<open>[-1, 1]\<close>, scaling a
  negative value by \<^verbatim>\<open>0x8000\<close> and any other by \<^verbatim>\<open>0x7FFF\<close>, and truncating toward zero
  (decoding the payload gives these bytes back). The value the \<^verbatim>\<open>Int16Array\<close> holds for a
  sample is exactly that scaled value: it lies between \<open>-32768\<close> and \<open>32767\<close>, so nothing
  wraps around.
\<close>

theorem C5_createBlob:
  "blob_mimeType (createBlob data) = ''audio/pcm;rate=16000'' \<and>
   blob_data (createBlob data) = encode (concat (map (\<lambda>x. le16_bytes (scaled_sample x)) data)) \<and>
   decode (blob_data (createBlob data)) = Inr (concat (map (\<lambda>x. le16_bytes (scaled_sample x)) data)) \<and>
   sint (pcm_sample x) = scaled_sample x \<and>
   - 32768 \<le> scaled_sample x \<and> scaled_sample x \<le> 32767"
proof -
  have "sint (pcm_sample x) = scaled_sample x"
    using scaled_sample_bounds [of x] by (simp add: pcm_sample_scaled sint_word16)
  then show ?thesis
    using scaled_sample_bounds [of x]
    by (simp add: createBlob_def int16_bytes_scaled decode_encode_bytes)
qed

subsection \<open>C6: the samples of \<^verbatim>\<open>decodeAudioData\<close>\<close>

text \<open>
  Claim C6, as amended. For every byte array of even length \<open>2n\<close> with \<open>n \<ge> 1\<close> and every
  sample rate that \<^verbatim>\<open>createBuffer\<close> accepts (every browser accepts 8000 to 96000; the
  program passes 24000), \<^verbatim>\<open>decodeAudioData\<close> with one channel returns an audio buffer of
  exactly \<open>n\<close> frames whose \<open>i\<close>-th sample is the \<open>i\<close>-th little-endian signed 16-bit value
  of the input divided by 32768; every sample lies in \<open>[-1, 1)\<close>.
\<close>

theorem C6_decodeAudioData:
  assumes "length data = 2 * n" and "0 < n" and "supported_sampleRate sampleRate"
  shows "decodeAudioData data sampleRate 1 =
           Inr \<lparr>numberOfChannels = 1, buf_length = n, buf_sampleRate = sampleRate,
                channelData =
                  [map (\<lambda>i. of_int (s16_le (data ! (2 * i)) (data ! (2 * i + 1))) / 32768)
                       [0..<n]]\<rparr>
         \<and> (\<forall>i<n. - 1 \<le> (of_int (s16_le (data ! (2 * i)) (data ! (2 * i + 1))) :: rat) / 32768
                    \<and> (of_int (s16_le (data ! (2 * i)) (data ! (2 * i + 1))) :: rat) / 32768 < 1)"
proof -
  have len: "length (int16_elems data) = n"
    using assms(1) by (simp add: length_int16_elems)
  have elems: "map (\<lambda>i. (of_int (sint (int16_elems data ! i)) :: rat) / 32768) [0..<n]
        = map (\<lambda>i. of_int (s16_le (data ! (2 * i)) (data ! (2 * i + 1))) / 32768) [0..<n]"
  proof (intro map_cong refl)
    fix i assume "i \<in> set [0..<n]"
    then have "2 * i + 1 < length data"
      using assms(1) by simp
    then show "(of_int (sint (int16_elems data ! i)) :: rat) / 32768
        = of_int (s16_le (data ! (2 * i)) (data ! (2 * i + 1))) / 32768"
      by (simp only: nth_int16_elems sint_int16_elem)
  qed
  have "decodeAudioData data sampleRate 1 =
           Inr \<lparr>numberOfChannels = 1, buf_length = n, buf_sampleRate = sampleRate,
                channelData =
                  [map (\<lambda>i. of_int (sint (int16_elems data ! i)) / 32768) [0..<n]]\<rparr>"
    using assms
    by (simp add: decodeAudioData_def int16_view_def createBuffer_def supported_channels_def len)
  then show ?thesis
    unfolding elems using decoded_sample_bounds by blast
qed

text \<open>
  The bytes \<^verbatim>\<open>00 80 FF 7F\<close> decode, at the program's rate of 24000, to the two samples
  \<open>-1\<close> and \<open>32767/32768\<close>.
\<close>

theorem C6_decodeAudioData_witness:
  "length ([0, 0x80, 0xFF, 0x7F] :: 8 word list) = 2 * 2 \<and> supported_sampleRate 24000 \<and>
   decodeAudioData [0, 0x80, 0xFF, 0x7F] 24000 1 =
     Inr \<lparr>numberOfChannels = 1, buf_length = 2, buf_sampleRate = 24000,
          channelData = [[- 1, 32767 / 32768]]\<rparr>"
proof -
  have upt: "[0..<2] = [0, Suc 0]"
    by (simp add: numeral_2_eq_2)
  have rate: "supported_sampleRate 24000"
    by (simp add: supported_sampleRate_def)
  show ?thesis
    using C6_decodeAudioData [of "[0, 0x80, 0xFF, 0x7F]" 2 24000] rate
    by (simp add: s16_le_def upt)
qed

text \<open>
  The claim as first stated covers every byte array of even length, the empty one too
  (\<open>n = 0\<close>), and names no sample rate. For the empty array no buffer of zero frames is
  produced, and for two bytes at the rate 0 no buffer of one frame: \<^verbatim>\<open>createBuffer\<close>
  throws in both cases.
\<close>

theorem C6_empty_input_counterexample:
  "length ([] :: 8 word list) = 2 * 0 \<and> decodeAudioData [] 24000 1 = Inl NotSupportedError \<and>
   length ([1, 0] :: 8 word list) = 2 * 1 \<and> decodeAudioData [1, 0] 0 1 = Inl NotSupportedError"
  by (simp add: decodeAudioData_def int16_view_def createBuffer_def supported_sampleRate_def
      supported_channels_def)

subsection \<open>What the blocks of \<^verbatim>\<open>handleMessage\<close> leave alone\<close>

lemma handleMessage_blocks:
  "handleMessage d s m =
     (if \<not> isConnected s then (s, [])
      else
        (let r1 = handle_audio d s m;
             r2 = handle_inputTranscription (fst r1) m;
             r3 = handle_outputTranscription (fst r2) m;
             r4 = handle_toolCall (fst r3) m
         in case snd r4 of
              Some e \<Rightarrow> (fst r3, snd r1 @ snd r2 @ snd r3 @ fst r4 @ [ConsoleError ''Msg Error:''])
            | None \<Rightarrow>
                (let r5 = handle_turnComplete (fst r3) m;
                     r6 = handle_interrupted (fst r5) m
                 in (fst r6, snd r1 @ snd r2 @ snd r3 @ fst r4 @ snd r5 @ snd r6))))"
  by (simp add: handleMessage_def Let_def split_beta split: option.splits)

text \<open>The tool-call block throws exactly for a message whose tool call fails.\<close>

lemma toolCall_loop_thrown:
  "snd (toolCall_loop s fcs) = (if list_ex lacks_arguments fcs then Some TypeError else None)"
  by (induction fcs) (auto simp add: lacks_arguments_def split: option.splits prod.splits)

lemma handle_toolCall_thrown:
  "snd (handle_toolCall s m) = (if tool_call_fails m then Some TypeError else None)"
  by (simp add: handle_toolCall_def tool_call_fails_def toolCall_loop_thrown
      split: option.splits)

lemma handleMessage_complete:
  "\<not> tool_call_fails m \<Longrightarrow>
   handleMessage d s m =
     (if \<not> isConnected s then (s, [])
      else
        (let r1 = handle_audio d s m;
             r2 = handle_inputTranscription (fst r1) m;
             r3 = handle_outputTranscription (fst r2) m;
             r4 = handle_toolCall (fst r3) m;
             r5 = handle_turnComplete (fst r3) m;
             r6 = handle_interrupted (fst r5) m
         in (fst r6, snd r1 @ snd r2 @ snd r3 @ fst r4 @ snd r5 @ snd r6)))"
  by (simp add: handleMessage_blocks Let_def handle_toolCall_thrown)

lemma handleMessage_failed:
  "tool_call_fails m \<Longrightarrow>
   handleMessage d s m =
     (if \<not> isConnected s then (s, [])
      else
        (let r1 = handle_audio d s m;
             r2 = handle_inputTranscription (fst r1) m;
             r3 = handle_outputTranscription (fst r2) m;
             r4 = handle_toolCall (fst r3) m
         in (fst r3, snd r1 @ snd r2 @ snd r3 @ fst r4 @ [ConsoleError ''Msg Error:''])))"
  by (simp add: handleMessage_blocks Let_def handle_toolCall_thrown)

lemma handle_audio_frame:
  "session (fst (handle_audio d s m)) = session s"
  "isConnected (fst (handle_audio d s m)) = isConnected s"
  "currentInputTranscription (fst (handle_audio d s m)) = currentInputTranscription s"
  "currentOutputTranscription (fst (handle_audio d s m)) = currentOutputTranscription s"
  "outputAudioContext (fst (handle_audio d s m)) = outputAudioContext s"
  "outputNode (fst (handle_audio d s m)) = outputNode s"
  by (simp_all add: handle_audio_def Let_def split: option.splits sum.splits)

lemma handle_inputTranscription_frame:
  "session (fst (handle_inputTranscription s m)) = session s"
  "isConnected (fst (handle_inputTranscription s m)) = isConnected s"
  "currentOutputTranscription (fst (handle_inputTranscription s m)) = currentOutputTranscription s"
  "outputAudioContext (fst (handle_inputTranscription s m)) = outputAudioContext s"
  "outputNode (fst (handle_inputTranscription s m)) = outputNode s"
  "nextStartTime (fst (handle_inputTranscription s m)) = nextStartTime s"
  "sources (fst (handle_inputTranscription s m)) = sources s"
  by (simp_all add: handle_inputTranscription_def Let_def split: option.splits)

lemma handle_outputTranscription_frame:
  "session (fst (handle_outputTranscription s m)) = session s"
  "isConnected (fst (handle_outputTranscription s m)) = isConnected s"
  "currentInputTranscription (fst (handle_outputTranscription s m)) = currentInputTranscription s"
  "outputAudioContext (fst (handle_outputTranscription s m)) = outputAudioContext s"
  "outputNode (fst (handle_outputTranscription s m)) = outputNode s"
  "nextStartTime (fst (handle_outputTranscription s m)) = nextStartTime s"
  "sources (fst (handle_outputTranscription s m)) = sources s"
  by (simp_all add: handle_outputTranscription_def Let_def split: option.splits)

lemma handle_turnComplete_frame:
  "session (fst (handle_turnComplete s m)) = session s"
  "isConnected (fst (handle_turnComplete s m)) = isConnected s"
  "outputAudioContext (fst (handle_turnComplete s m)) = outputAudioContext s"
  "outputNode (fst (handle_turnComplete s m)) = outputNode s"
  "nextStartTime (fst (handle_turnComplete s m)) = nextStartTime s"
  "sources (fst (handle_turnComplete s m)) = sources s"
  by (simp_all add: handle_turnComplete_def split: option.splits)

lemma handle_interrupted_frame:
  "session (fst (handle_interrupted s m)) = session s"
  "isConnected (fst (handle_interrupted s m)) = isConnected s"
  "currentInputTranscription (fst (handle_interrupted s m)) = currentInputTranscription s"
  "outputAudioContext (fst (handle_interrupted s m)) = outputAudioContext s"
  "outputNode (fst (handle_interrupted s m)) = outputNode s"
  by (simp_all add: handle_interrupted_def split: option.splits)

lemmas block_frames = handle_audio_frame handle_inputTranscription_frame
  handle_outputTranscription_frame handle_turnComplete_frame handle_interrupted_frame

lemma handleMessage_frame:
  "session (fst (handleMessage d s m)) = session s"
  "isConnected (fst (handleMessage d s m)) = isConnected s"
  "outputAudioContext (fst (handleMessage d s m)) = outputAudioContext s"
  "outputNode (fst (handleMessage d s m)) = outputNode s"
  by (simp_all add: handleMessage_blocks Let_def block_frames split: option.splits)

lemma step_frame:
  "session (fst (step d s ev)) = session s"
  "isConnected (fst (step d s ev)) = isConnected s"
  "outputNode (fst (step d s ev)) = outputNode s"
  by (cases ev; simp add: handleMessage_frame onaudioprocess_def advance_clock_def
        source_ended_def split: option.splits)+

subsection \<open>A connected client has a session\<close>

lemma connected_has_session:
  "reachable d s \<Longrightarrow> isConnected s \<Longrightarrow> session s \<noteq> None"
proof (induction rule: reachable.induct)
  case (reachable_new lang)
  then show ?case by (simp add: new_LiveClient_def)
next
  case (reachable_disconnect s)
  then show ?case by (simp add: disconnect_def)
next
  case (reachable_step s ev)
  then show ?case by (simp add: step_frame)
next
  case (reachable_timer s)
  then show ?case
    by (auto simp: streaming_timer_def startAudioStreaming_def split: if_splits)
next
  case (reachable_media s env es)
  then show ?case
    by (auto simp: outcome_state_def acquire_media_def split: sum.splits)
next
  case (reachable_contexts s env es)
  then show ?case
    by (auto simp: outcome_state_def create_contexts_def split: sum.splits)
next
  case (reachable_resume_input s env es)
  then show ?case
    by (auto simp: outcome_state_def resume_input_def split: sum.splits option.splits if_splits)
next
  case (reachable_resume_output s env es)
  then show ?case
    by (auto simp: outcome_state_def resume_output_def split: sum.splits option.splits if_splits)
next
  case (reachable_session s env es)
  then show ?case
    by (auto simp: outcome_state_def open_session_def Let_def split: sum.splits)
qed

lemma and_then_outcome:
  assumes "reachable d (outcome_state r)"
    and "\<And>s es. reachable d s \<Longrightarrow> reachable d (outcome_state (f (s, es)))"
  shows "reachable d (outcome_state (and_then r f))"
proof (cases r)
  case (Inl failure)
  with assms(1) show ?thesis by (simp add: and_then_def)
next
  case (Inr p)
  obtain s es where p: "p = (s, es)" by (cases p)
  with Inr assms(1) have "reachable d s" by (simp add: outcome_state_def)
  then show ?thesis using Inr p assms(2) by (simp add: and_then_def)
qed

lemma reachable_connect_try:
  "reachable d s \<Longrightarrow> reachable d (outcome_state (connect_try env s))"
  unfolding connect_try_def by (intro and_then_outcome reachable.intros)

lemma reachable_connect: "reachable d s \<Longrightarrow> reachable d (fst (connect env s))"
proof -
  assume r: "reachable d s"
  show ?thesis
  proof (cases "api_key_missing env")
    case True
    with r show ?thesis by (simp add: connect_def)
  next
    case False
    show ?thesis
    proof (cases "connect_try env s")
      case (Inl failure)
      obtain e s1 es where f: "failure = (e, s1, es)" by (cases failure)
      from reachable_connect_try [OF r, of env] Inl f have "reachable d s1"
        by (simp add: outcome_state_def)
      then have "reachable d (fst (disconnect s1))" by (rule reachable_disconnect)
      with False Inl f show ?thesis by (simp add: connect_def case_prod_beta)
    next
      case (Inr p)
      from reachable_connect_try [OF r, of env] Inr have "reachable d (fst p)"
        by (simp add: outcome_state_def split: prod.splits)
      with False Inr show ?thesis by (simp add: connect_def)
    qed
  qed
qed

subsection \<open>The example data, evaluated\<close>

lemmas example_defs = good_env_def no_key_env_def refused_env_def fresh_client_def
  connected_client_def running_context_def new_LiveClient_def api_key_missing_def
  connect_def connect_try_def and_then_def acquire_media_def create_contexts_def
  resume_input_def resume_output_def open_session_def disconnect_def closeContext_def

lemma connected_client_eq:
  "connected_client =
     \<lparr>inputAudioContext = Some (running_context 16000),
      outputAudioContext = Some (running_context 24000),
      inputNode = Some GainNode, outputNode = Some GainNode,
      mediaStream = Some MediaStream, scriptProcessor = None, source = None,
      nextStartTime = 0, sources = [], currentInputTranscription = [],
      currentOutputTranscription = [], session = Some LiveSession, isConnected = True,
      language = ''Hindi'', sourcesCreated = 0\<rparr>"
  by (simp add: example_defs)

lemma reachable_connected_client: "reachable d connected_client"
  unfolding connected_client_def fresh_client_def
  by (intro reachable_connect reachable_new)

lemma decode_example: "decode ''AID/fw=='' = Inr [0, 0x80, 0xFF, 0x7F]"
  by code_simp

lemma decode_bad: "decode ''!'' = Inl InvalidCharacterError"
  by code_simp

lemma decodeAudioData_example:
  "decodeAudioData [0, 0x80, 0xFF, 0x7F] 24000 (Suc 0) = Inr two_frames"
  by (simp add: decodeAudioData_def int16_view_def createBuffer_def supported_channels_def
      supported_sampleRate_def two_frames_def)

lemma seconds_two_frames: "seconds two_frames = 1 / 12000"
  by (simp add: seconds_def two_frames_def)

subsection \<open>C10: live mode blocks the text chat and the language button\<close>

text \<open>
  Claim C10. Whenever live mode is active, \<^verbatim>\<open>handleSubmit\<close> of the chat input does not call
  \<^verbatim>\<open>onSend\<close>, whatever text has been typed, and leaves the input as it is; the text area is
  disabled; the language button of the header is disabled and a click on it leaves the
  state of the application, and so the language menu, unchanged.
\<close>

theorem C10_live_mode_blocks_text:
  assumes "isLive app"
  shows "isLiveActive (chat_input_of app) \<and>
         handleSubmit (chat_input_of app) input = (None, input) \<and>
         textarea_disabled (chat_input_of app) \<and>
         language_button_disabled app \<and>
         language_button_click app = app"
  using assms
  by (simp add: chat_input_of_def handleSubmit_def textarea_disabled_def
      language_button_disabled_def language_button_click_def)

text \<open>In live mode, with the text \<^verbatim>\<open>hi\<close> typed and the menu closed.\<close>

theorem C10_live_mode_blocks_text_witness:
  "isLive \<lparr>isLive = True, app_isLoading = False, showLangMenu = False\<rparr> \<and>
   handleSubmit (chat_input_of \<lparr>isLive = True, app_isLoading = False, showLangMenu = False\<rparr>)
     [0x68, 0x69] = (None, [0x68, 0x69]) \<and>
   textarea_disabled (chat_input_of \<lparr>isLive = True, app_isLoading = False, showLangMenu = False\<rparr>) \<and>
   language_button_disabled \<lparr>isLive = True, app_isLoading = False, showLangMenu = False\<rparr> \<and>
   language_button_click \<lparr>isLive = True, app_isLoading = False, showLangMenu = False\<rparr>
     = \<lparr>isLive = True, app_isLoading = False, showLangMenu = False\<rparr>"
  using C10_live_mode_blocks_text
    [of "\<lparr>isLive = True, app_isLoading = False, showLangMenu = False\<rparr>" "[0x68, 0x69]"]
  by simp

subsection \<open>C7: a client that is not connected, and a \<^verbatim>\<open>connect\<close> that outlives a \<^verbatim>\<open>disconnect\<close>\<close>

lemma run_disconnected:
  "\<not> isConnected s \<Longrightarrow> \<forall>ev \<in> set evs. client_input ev \<Longrightarrow> run d s evs = (s, [])"
proof (induction evs)
  case Nil
  then show ?case by simp
next
  case (Cons ev evs)
  then have "step d s ev = (s, [])"
    by (cases ev) (simp_all add: handleMessage_def onaudioprocess_def)
  with Cons show ?case by simp
qed

lemma disconnect_state:
  "isConnected (fst (disconnect s)) = False" "session (fst (disconnect s)) = None"
  "mediaStream (fst (disconnect s)) = None" "inputAudioContext (fst (disconnect s)) = None"
  "outputAudioContext (fst (disconnect s)) = None" "source (fst (disconnect s)) = None"
  "scriptProcessor (fst (disconnect s)) = None"
  by (simp_all add: disconnect_def)

lemma failed_connect_not_connected:
  "\<not> isConnected s \<Longrightarrow> \<not> connect_succeeds env s \<Longrightarrow> \<not> isConnected (fst (connect env s))"
  by (auto simp add: connect_succeeds_def connect_def disconnect_state case_prod_beta
      split: sum.splits)

text \<open>
  The guards of the two callbacks. \<^verbatim>\<open>handleMessage\<close> returns without a change of state and
  without an effect whenever \<^verbatim>\<open>isConnected\<close> is false, the audio-process callback returns
  without calling \<^verbatim>\<open>sendRealtimeInput\<close> whenever \<^verbatim>\<open>isConnected\<close> is false or the session is
  null, and the timer set by \<^verbatim>\<open>connect\<close> starts no streaming when \<^verbatim>\<open>isConnected\<close> is false.
  So as long as nothing but server messages and microphone buffers reach a client that
  \<^verbatim>\<open>disconnect\<close> has left, that is new, or whose \<^verbatim>\<open>connect\<close> has failed, it stays as it is
  and does nothing.
\<close>

lemma not_connected_is_inert:
  fixes s :: "('t::{linorder,plus,zero}) live_client"
  shows
  "(\<not> isConnected s \<longrightarrow> handleMessage d s m = (s, [])) \<and>
   (\<not> isConnected s \<or> session s = None \<longrightarrow> onaudioprocess s inputData = (s, [])) \<and>
   (\<not> isConnected s \<longrightarrow> streaming_timer s = (s, [])) \<and>
   ((\<forall>ev \<in> set evs. client_input ev) \<longrightarrow>
      run d (fst (disconnect s)) evs = (fst (disconnect s), []) \<and>
      run d (new_LiveClient lang) evs = (new_LiveClient lang, [])) \<and>
   (\<not> isConnected s \<and> \<not> connect_succeeds env s \<and> (\<forall>ev \<in> set evs. client_input ev) \<longrightarrow>
      run d (fst (connect env s)) evs = (fst (connect env s), []))"
proof (intro conjI impI)
  show "handleMessage d s m = (s, [])" if "\<not> isConnected s"
    using that by (simp add: handleMessage_def)
  show "onaudioprocess s inputData = (s, [])" if "\<not> isConnected s \<or> session s = None"
    using that by (auto simp add: onaudioprocess_def)
  show "streaming_timer s = (s, [])" if "\<not> isConnected s"
    using that by (simp add: streaming_timer_def)
  show "run d (fst (disconnect s)) evs = (fst (disconnect s), [])"
    if "\<forall>ev \<in> set evs. client_input ev"
    using that by (intro run_disconnected) (simp_all add: disconnect_state)
  show "run d (new_LiveClient lang) evs = (new_LiveClient lang, [])"
    if "\<forall>ev \<in> set evs. client_input ev"
    using that by (intro run_disconnected) (simp_all add: new_LiveClient_def)
  show "run d (fst (connect env s)) evs = (fst (connect env s), [])"
    if "\<not> isConnected s \<and> \<not> connect_succeeds env s \<and> (\<forall>ev \<in> set evs. client_input ev)"
    using that by (intro run_disconnected failed_connect_not_connected) simp_all
qed

text \<open>
  \<^verbatim>\<open>connect\<close>, when nothing comes in between, is the request of the microphone followed by
  \<open>connect_resumed\<close>.
\<close>

lemma stages_preceded:
  "acquire_media env (s, []) = preceded GetUserMedia (settle_media env (s, []))"
  "create_contexts env (s, e # es) = preceded e (create_contexts env (s, es))"
  "resume_input env (s, e # es) = preceded e (resume_input env (s, es))"
  "resume_output env (s, e # es) = preceded e (resume_output env (s, es))"
  "open_session env (s, e # es) = preceded e (open_session env (s, es))"
  by (simp_all add: preceded_def acquire_media_def settle_media_def create_contexts_def
      resume_input_def resume_output_def open_session_def Let_def
      split: sum.splits option.splits)

lemma and_then_preceded:
  assumes "\<And>s es. f (s, e # es) = preceded e (f (s, es))"
  shows "and_then (preceded e r) f = preceded e (and_then r f)"
  using assms by (auto simp add: and_then_def preceded_def split: sum.splits prod.splits)

lemma connect_try_preceded:
  "connect_try env s
     = preceded GetUserMedia
         (and_then (and_then (and_then (and_then (settle_media env (s, []))
             (create_contexts env)) (resume_input env)) (resume_output env)) (open_session env))"
  by (simp add: connect_try_def stages_preceded and_then_preceded)

lemma connect_in_two_parts:
  "\<not> api_key_missing env \<Longrightarrow>
   connect env s
     = (fst (connect_resumed env s), GetUserMedia # snd (connect_resumed env s))"
  by (simp add: connect_def connect_resumed_def connect_try_preceded preceded_def
      split: sum.splits prod.splits)

text \<open>
  Claim C7 says that once \<^verbatim>\<open>disconnect\<close> has run the client never sends realtime audio
  input and never reacts to a server message. That holds of the guards, but not of the
  client: \<^verbatim>\<open>disconnect\<close> does not stop a \<^verbatim>\<open>connect\<close> that is waiting. The voice button is
  pressed, \<^verbatim>\<open>connect\<close> asks for the microphone and waits; the button is pressed again and
  the application calls \<^verbatim>\<open>disconnect\<close>; then the microphone is granted and \<^verbatim>\<open>connect\<close>
  goes on. No \<^verbatim>\<open>connect\<close> is called after the \<^verbatim>\<open>disconnect\<close>, and yet the client ends up
  connected, with every resource acquired: it reacts to a server message, and after the
  timer its audio-process callback sends the microphone samples. (The timer itself tests
  \<^verbatim>\<open>isConnected\<close> after its delay; \<^verbatim>\<open>connect\<close> tests nothing after its waits.)
\<close>

theorem C7_disconnect_during_connect:
  "connect good_env fresh_client
     = (fst (connect_resumed good_env fresh_client),
        GetUserMedia # snd (connect_resumed good_env fresh_client)) \<and>
   disconnect fresh_client = (fresh_client, [OnDisconnected]) \<and>
   \<not> isConnected (fst (disconnect fresh_client)) \<and>
   revived_client = fst (connect_resumed good_env (fst (disconnect fresh_client))) \<and>
   isConnected revived_client \<and>
   handleMessage seconds revived_client (input_message ''hi'')
     = (revived_client\<lparr>currentInputTranscription := ''hi''\<rparr>, [OnInputTranscription ''hi'']) \<and>
   onaudioprocess (fst (streaming_timer revived_client)) [Finite (1 / 2)]
     = (fst (streaming_timer revived_client),
        [SendRealtimeInput (createBlob [Finite (1 / 2)])])"
proof -
  have key: "\<not> api_key_missing good_env"
    by (simp add: good_env_def api_key_missing_def)
  have d: "disconnect fresh_client = (fresh_client, [OnDisconnected])"
    by (simp add: disconnect_def fresh_client_def new_LiveClient_def closeContext_def)
  have r: "revived_client = connected_client"
    by (simp add: revived_client_def d connected_client_def connect_in_two_parts [OF key])
  have m: "handleMessage seconds connected_client (input_message ''hi'')
     = (connected_client\<lparr>currentInputTranscription := ''hi''\<rparr>, [OnInputTranscription ''hi''])"
    by (simp add: connected_client_eq handleMessage_def handle_audio_def base64Audio_def
        handle_inputTranscription_def handle_outputTranscription_def handle_toolCall_def
        handle_turnComplete_def handle_interrupted_def input_message_def content_message_def
        empty_content_def js_string_def Let_def)
  have a: "onaudioprocess (fst (streaming_timer connected_client)) [Finite (1 / 2)]
     = (fst (streaming_timer connected_client),
        [SendRealtimeInput (createBlob [Finite (1 / 2)])])"
    by (simp add: connected_client_eq streaming_timer_def startAudioStreaming_def
        onaudioprocess_def)
  show ?thesis
    using connect_in_two_parts [OF key, of fresh_client] d r m a
    by (simp add: revived_client_def connected_client_eq fresh_client_def new_LiveClient_def)
qed

text \<open>
  What the application sees of the client it has disconnected: the transcription callback
  and the microphone samples on the session.
\<close>

theorem C7_disconnect_during_connect_witness:
  "\<not> isConnected (fst (disconnect fresh_client)) \<and> isConnected revived_client \<and>
   snd (handleMessage seconds revived_client (input_message ''hi''))
     = [OnInputTranscription ''hi''] \<and>
   snd (onaudioprocess (fst (streaming_timer revived_client)) [Finite (1 / 2)])
     = [SendRealtimeInput (createBlob [Finite (1 / 2)])]"
  using C7_disconnect_during_connect by (metis snd_conv)

subsection \<open>C9: the errors of \<^verbatim>\<open>connect\<close>\<close>

lemma disconnect_effects:
  "\<exists>ds. snd (disconnect s) = ds @ [OnDisconnected]"
  by (simp add: disconnect_def)

lemma disconnect_releases:
  "(session s \<noteq> None \<longrightarrow> SessionClose \<in> set (snd (disconnect s))) \<and>
   (mediaStream s \<noteq> None \<longrightarrow> TracksStop \<in> set (snd (disconnect s))) \<and>
   (inputAudioContext s = Some c \<and> ctx_state c \<noteq> Closed \<longrightarrow>
      ContextClose (ctx_sampleRate c) \<in> set (snd (disconnect s))) \<and>
   (outputAudioContext s = Some c' \<and> ctx_state c' \<noteq> Closed \<longrightarrow>
      ContextClose (ctx_sampleRate c') \<in> set (snd (disconnect s)))"
  by (auto simp add: disconnect_def closeContext_def split: option.splits)

lemma connect_failure:
  "\<not> api_key_missing env \<Longrightarrow> connect_try env s = Inl (e, s1, es) \<Longrightarrow>
   connect env s =
     (fst (disconnect s1),
      es @ [ConsoleError ''Connection Exception:''] @ snd (disconnect s1) @ [OnError e])"
  by (simp add: connect_def case_prod_beta)

text \<open>
  Claim C9. If the API key is unset when \<^verbatim>\<open>connect\<close> is called, \<^verbatim>\<open>connect\<close> calls \<^verbatim>\<open>onError\<close>
  with the error \<^verbatim>\<open>API Key missing\<close> and does nothing else: the client is unchanged, no
  microphone is requested, no audio context is created, no session is opened. If an
  exception is thrown during the connection, at any stage, \<^verbatim>\<open>connect\<close> runs \<^verbatim>\<open>disconnect\<close> on
  the client as it is at the throw and then calls \<^verbatim>\<open>onError\<close> with that exception:
  \<^verbatim>\<open>onDisconnected\<close> and \<^verbatim>\<open>onError\<close> are the last two effects, in this order; afterwards
  \<^verbatim>\<open>isConnected\<close> is false and the session, the media stream, both audio contexts, the
  stream source and the script processor are null; and what was held at the throw has been
  released (the session closed, the tracks stopped, each open context closed).
\<close>

theorem C9_connect_errors:
  "(env_API_KEY env = None \<longrightarrow> connect env s = (s, [OnError (Error ''API Key missing'')])) \<and>
   (\<not> api_key_missing env \<and> connect_try env s = Inl (e, s1, es) \<longrightarrow>
      (\<exists>ds. snd (disconnect s1) = ds @ [OnDisconnected] \<and>
            snd (connect env s) =
              es @ [ConsoleError ''Connection Exception:''] @ ds @ [OnDisconnected, OnError e]) \<and>
      fst (connect env s) = fst (disconnect s1) \<and>
      \<not> isConnected (fst (connect env s)) \<and> session (fst (connect env s)) = None \<and>
      mediaStream (fst (connect env s)) = None \<and>
      inputAudioContext (fst (connect env s)) = None \<and>
      outputAudioContext (fst (connect env s)) = None \<and>
      source (fst (connect env s)) = None \<and>
      scriptProcessor (fst (connect env s)) = None \<and>
      (session s1 \<noteq> None \<longrightarrow> SessionClose \<in> set (snd (connect env s))) \<and>
      (mediaStream s1 \<noteq> None \<longrightarrow> TracksStop \<in> set (snd (connect env s))) \<and>
      (inputAudioContext s1 = Some c \<and> ctx_state c \<noteq> Closed \<longrightarrow>
         ContextClose (ctx_sampleRate c) \<in> set (snd (connect env s))) \<and>
      (outputAudioContext s1 = Some c' \<and> ctx_state c' \<noteq> Closed \<longrightarrow>
         ContextClose (ctx_sampleRate c') \<in> set (snd (connect env s))))"
proof (intro conjI impI)
  assume "env_API_KEY env = None"
  then show "connect env s = (s, [OnError (Error ''API Key missing'')])"
    by (simp add: connect_def api_key_missing_def)
next
  assume a: "\<not> api_key_missing env \<and> connect_try env s = Inl (e, s1, es)"
  then have c: "connect env s =
      (fst (disconnect s1),
       es @ [ConsoleError ''Connection Exception:''] @ snd (disconnect s1) @ [OnError e])"
    by (simp add: connect_failure)
  from disconnect_effects [of s1] obtain ds
    where ds: "snd (disconnect s1) = ds @ [OnDisconnected]" by blast
  show "\<exists>ds. snd (disconnect s1) = ds @ [OnDisconnected] \<and>
            snd (connect env s) =
              es @ [ConsoleError ''Connection Exception:''] @ ds @ [OnDisconnected, OnError e]"
    using ds c by simp
  show "fst (connect env s) = fst (disconnect s1)"
    using c by simp
  show "\<not> isConnected (fst (connect env s))" "session (fst (connect env s)) = None"
      "mediaStream (fst (connect env s)) = None" "inputAudioContext (fst (connect env s)) = None"
      "outputAudioContext (fst (connect env s)) = None" "source (fst (connect env s)) = None"
      "scriptProcessor (fst (connect env s)) = None"
    using c by (simp_all add: disconnect_state)
  show "SessionClose \<in> set (snd (connect env s))" if "session s1 \<noteq> None"
    using that c disconnect_releases [of s1] by simp
  show "TracksStop \<in> set (snd (connect env s))" if "mediaStream s1 \<noteq> None"
    using that c disconnect_releases [of s1] by simp
  show "ContextClose (ctx_sampleRate c) \<in> set (snd (connect env s))"
    if "inputAudioContext s1 = Some c \<and> ctx_state c \<noteq> Closed"
    using that c disconnect_releases [of s1 c] by simp
  show "ContextClose (ctx_sampleRate c') \<in> set (snd (connect env s))"
    if "outputAudioContext s1 = Some c' \<and> ctx_state c' \<noteq> Closed"
    using that c disconnect_releases [of s1 _ c'] by simp
qed

text \<open>
  Without an API key; and with a key when \<^verbatim>\<open>ai.live.connect\<close> throws after the microphone
  and both audio contexts have been acquired.
\<close>

theorem C9_connect_errors_witness:
  "env_API_KEY no_key_env = None \<and>
   connect no_key_env fresh_client = (fresh_client, [OnError (Error ''API Key missing'')]) \<and>
   \<not> api_key_missing refused_env \<and>
   connect_try refused_env fresh_client =
     Inl (Error ''refused'', refused_state,
          [GetUserMedia, NewAudioContext 16000, NewAudioContext 24000, LiveConnect ''Hindi'']) \<and>
   mediaStream refused_state \<noteq> None \<and>
   inputAudioContext refused_state = Some (running_context 16000) \<and>
   outputAudioContext refused_state = Some (running_context 24000) \<and>
   snd (connect refused_env fresh_client) =
     [GetUserMedia, NewAudioContext 16000, NewAudioContext 24000, LiveConnect ''Hindi'',
      ConsoleError ''Connection Exception:'', TracksStop, ContextClose 16000,
      ContextClose 24000, OnDisconnected, OnError (Error ''refused'')] \<and>
   \<not> isConnected (fst (connect refused_env fresh_client)) \<and>
   mediaStream (fst (connect refused_env fresh_client)) = None \<and>
   TracksStop \<in> set (snd (connect refused_env fresh_client)) \<and>
   ContextClose 16000 \<in> set (snd (connect refused_env fresh_client)) \<and>
   ContextClose 24000 \<in> set (snd (connect refused_env fresh_client))"
proof -
  have k: "env_API_KEY no_key_env = None"
    by (simp add: example_defs)
  have f: "\<not> api_key_missing refused_env"
    "connect_try refused_env fresh_client =
       Inl (Error ''refused'', refused_state,
            [GetUserMedia, NewAudioContext 16000, NewAudioContext 24000, LiveConnect ''Hindi''])"
    by (simp_all add: refused_state_def outcome_state_def example_defs)
  have st: "mediaStream refused_state \<noteq> None"
    "inputAudioContext refused_state = Some (running_context 16000)"
    "outputAudioContext refused_state = Some (running_context 24000)"
    "ctx_state (running_context 16000) \<noteq> Closed" "ctx_state (running_context 24000) \<noteq> Closed"
    "ctx_sampleRate (running_context 16000) = 16000" "ctx_sampleRate (running_context 24000) = 24000"
    by (simp_all add: refused_state_def outcome_state_def example_defs)
  have effects: "snd (connect refused_env fresh_client) =
     [GetUserMedia, NewAudioContext 16000, NewAudioContext 24000, LiveConnect ''Hindi'',
      ConsoleError ''Connection Exception:'', TracksStop, ContextClose 16000,
      ContextClose 24000, OnDisconnected, OnError (Error ''refused'')]"
    by (simp add: example_defs)
  show ?thesis
    using k f st effects
      C9_connect_errors [of no_key_env fresh_client]
      C9_connect_errors [of refused_env fresh_client "Error ''refused''" refused_state
        "[GetUserMedia, NewAudioContext 16000, NewAudioContext 24000, LiveConnect ''Hindi'']"
        "running_context 16000" "running_context 24000"]
    by (simp add: disconnect_state)
qed

subsection \<open>C4: the tool-call round trip\<close>

lemma or_empty_absent: "or_empty v = absent_as_empty v"
  by (simp add: or_empty_def absent_as_empty_def split: option.splits)

lemma toolCall_loop_round_trip:
  "session s \<noteq> None \<Longrightarrow> \<not> list_ex lacks_arguments fcs \<Longrightarrow>
   fst (toolCall_loop s fcs) = concat (map round_trip fcs)"
  by (induction fcs)
    (auto simp: round_trip_def or_empty_absent lacks_arguments_def argument_def
      split: option.splits prod.splits)

lemma no_tool_effects:
  "filter is_tool_effect (snd (handle_audio d s m)) = []"
  "filter is_tool_effect (snd (handle_inputTranscription s m)) = []"
  "filter is_tool_effect (snd (handle_outputTranscription s m)) = []"
  "filter is_tool_effect (snd (handle_turnComplete s m)) = []"
  "filter is_tool_effect (snd (handle_interrupted s m)) = []"
  by (simp_all add: handle_audio_def handle_inputTranscription_def handle_outputTranscription_def
      handle_turnComplete_def handle_interrupted_def Let_def filter_empty_conv
      split: option.splits sum.splits)

lemma round_trip_tool_effects:
  "filter is_tool_effect (concat (map round_trip fcs)) = concat (map round_trip fcs)"
  by (induction fcs) (auto simp: round_trip_def)

text \<open>
  When every call of \<^verbatim>\<open>provideBilingualDetails\<close> in the message carries its arguments
  object, the explanation callbacks and tool responses of a reachable, connected client
  are, call by call and in the order of the calls, the round trip of the specification.
\<close>

lemma tool_calls_round_trip:
  fixes s :: "('t::{linorder,plus,zero}) live_client"
  assumes "reachable d s" and "isConnected s" and "toolCall m = Some tc"
    and "functionCalls tc = Some fcs" and "\<not> list_ex lacks_arguments fcs"
  shows "filter is_tool_effect (snd (handleMessage d s m)) = concat (map round_trip fcs)"
proof -
  have sess: "session s \<noteq> None"
    using assms(1,2) by (rule connected_has_session)
  have complete: "\<not> tool_call_fails m"
    using assms(3-5) by (simp add: tool_call_fails_def)
  have loop: "fst (handle_toolCall s' m) = concat (map round_trip fcs)" if "session s' = session s"
    for s' :: "'t live_client"
    using assms(3-5) sess that by (simp add: handle_toolCall_def toolCall_loop_round_trip)
  show ?thesis
    using assms(2)
    by (simp add: handleMessage_complete [OF complete] Let_def no_tool_effects block_frames loop
        round_trip_tool_effects)
qed

text \<open>A message with a call of \<^verbatim>\<open>provideBilingualDetails\<close> and a call of another function.\<close>

lemma tool_calls_round_trip_example:
  "filter is_tool_effect
     (snd (handleMessage seconds connected_client (tool_message [details_call, other_call])))
     = [OnExplanation \<lparr>botTranslation = ''Hello'', userOriginal = [],
                       userEnglishTranslation = []\<rparr>,
        SendToolResponse \<lparr>response_id = Some ''c1'',
                          response_name = Some ''provideBilingualDetails'',
                          response_result = ''ok''\<rparr>]"
proof -
  have a: "isConnected connected_client"
    by (simp add: connected_client_eq)
  have b: "toolCall (tool_message [details_call, other_call])
     = Some \<lparr>functionCalls = Some [details_call, other_call]\<rparr>"
    by (simp add: tool_message_def)
  have c: "\<not> list_ex lacks_arguments [details_call, other_call]"
    by (simp add: lacks_arguments_def details_call_def other_call_def)
  show ?thesis
    using tool_calls_round_trip [OF reachable_connected_client a b _ c, of seconds]
    by (simp add: round_trip_def details_call_def other_call_def absent_as_empty_def
        argument_def)
qed

text \<open>
  Claim C4 says that every call named \<^verbatim>\<open>provideBilingualDetails\<close> is answered by
  \<^verbatim>\<open>onExplanation\<close>, with each absent field replaced by the empty string, and by one tool
  response. The code replaces an absent field of the arguments object, but reads the
  fields without testing for the object itself. A message with two such calls, the first
  without an arguments object: the claim's round trip is an explanation with three empty
  fields and a response for the first call, then the explanation and the response for the
  second. The client calls nothing and sends nothing: the first read throws, the loop is
  left, and all that happens is the log entry of the outer \<^verbatim>\<open>catch\<close>.
\<close>

theorem C4_call_without_arguments:
  "reachable seconds connected_client \<and> isConnected connected_client \<and>
   handleMessage seconds connected_client (tool_message [bare_call, details_call])
     = (connected_client, [ConsoleError ''Msg Error:'']) \<and>
   (concat (map round_trip [bare_call, details_call]) :: rat effect list)
     = [OnExplanation \<lparr>botTranslation = [], userOriginal = [],
                       userEnglishTranslation = []\<rparr>,
        SendToolResponse \<lparr>response_id = Some ''c0'',
                          response_name = Some ''provideBilingualDetails'',
                          response_result = ''ok''\<rparr>,
        OnExplanation \<lparr>botTranslation = ''Hello'', userOriginal = [],
                       userEnglishTranslation = []\<rparr>,
        SendToolResponse \<lparr>response_id = Some ''c1'',
                          response_name = Some ''provideBilingualDetails'',
                          response_result = ''ok''\<rparr>]"
proof -
  have a: "handleMessage seconds connected_client (tool_message [bare_call, details_call])
     = (connected_client, [ConsoleError ''Msg Error:''])"
    by (simp add: connected_client_eq handleMessage_def handle_audio_def base64Audio_def
        handle_inputTranscription_def handle_outputTranscription_def handle_toolCall_def
        tool_message_def bare_call_def details_call_def Let_def)
  have b: "isConnected connected_client"
    by (simp add: connected_client_eq)
  show ?thesis
    using a b reachable_connected_client [of seconds]
    by (simp add: round_trip_def bare_call_def details_call_def absent_as_empty_def
        argument_def)
qed

subsection \<open>C2: the interruption\<close>

lemma stopped_append: "stopped (xs @ ys) = stopped xs @ stopped ys"
  by (induction xs rule: stopped.induct) auto

lemma stopped_map_SourceStop: "stopped (map SourceStop xs) = xs"
  by (induction xs) auto

lemma started_append: "started (xs @ ys) = started xs @ started ys"
  by (induction xs rule: started.induct) auto

lemma started_map_SourceStop: "started (map SourceStop xs) = []"
  by (induction xs) auto

lemma no_stops:
  "stopped (snd (handle_audio d s m)) = []"
  "stopped (snd (handle_inputTranscription s m)) = []"
  "stopped (snd (handle_outputTranscription s m)) = []"
  "stopped (snd (handle_turnComplete s m)) = []"
  by (simp_all add: handle_audio_def handle_inputTranscription_def handle_outputTranscription_def
      handle_turnComplete_def Let_def split: option.splits sum.splits)

lemma no_starts:
  "started (snd (handle_inputTranscription s m)) = []"
  "started (snd (handle_outputTranscription s m)) = []"
  "started (snd (handle_turnComplete s m)) = []"
  "started (snd (handle_interrupted s m)) = []"
  by (simp_all add: handle_inputTranscription_def handle_outputTranscription_def
      handle_turnComplete_def handle_interrupted_def Let_def started_map_SourceStop
      split: option.splits)

lemma sources_toolCall_loop:
  "stopped (fst (toolCall_loop s fcs)) = []" "started (fst (toolCall_loop s fcs)) = []"
  by (induction fcs) (auto split: option.splits prod.splits)

lemma sources_handle_toolCall:
  "stopped (fst (handle_toolCall s m)) = []" "started (fst (handle_toolCall s m)) = []"
  by (simp_all add: handle_toolCall_def sources_toolCall_loop split: option.splits)

text \<open>The audio block adds the source it starts to the set.\<close>

lemma sources_handle_audio:
  "sources (fst (handle_audio d s m))
     = sources s @ filter (\<lambda>sid. sid \<notin> set (sources s)) (started (snd (handle_audio d s m)))"
  by (simp add: handle_audio_def Let_def set_add_def split: option.splits sum.splits)

lemma handle_interrupted_effect:
  "serverContent m = Some sc \<Longrightarrow> interrupted sc \<Longrightarrow>
   handle_interrupted s m =
     (s\<lparr>sources := [], nextStartTime := 0, currentOutputTranscription := []\<rparr>,
      map SourceStop (sources s))"
  by (simp add: handle_interrupted_def)

lemma input_after_blocks:
  "serverContent m = Some sc \<Longrightarrow> \<not> text_missing (inputTranscription sc) \<Longrightarrow>
   currentInputTranscription (fst (handle_turnComplete
      (fst (handle_outputTranscription (fst (handle_inputTranscription s m)) m)) m))
    = (if turnComplete sc then []
       else currentInputTranscription s @ (case input_fragment m of None \<Rightarrow> [] | Some t \<Rightarrow> t))"
  by (auto simp add: handle_turnComplete_def handle_outputTranscription_frame
      handle_inputTranscription_def input_fragment_def fragment_text_def text_missing_def
      js_string_def Let_def split: option.splits)

text \<open>
  Claim C2, as amended. When a connected client handles a server message with
  \<^verbatim>\<open>serverContent.interrupted\<close> set, and no exception of the message's tool call keeps it
  from reaching the interruption, it stops every playback source of its set: the sources
  it held before the message, in the order of the set, and after them the source that the
  same message has just started, if any. It empties the set, resets \<^verbatim>\<open>nextStartTime\<close> to 0
  and clears the accumulated output transcription; the session and the \<^verbatim>\<open>isConnected\<close>
  flag are unchanged. The accumulated input transcription is unchanged unless the same
  message also carries an input transcription, whose text is appended, or completes the
  turn, which clears it.
\<close>

theorem C2_interruption:
  fixes s :: "('t::{linorder,plus,zero}) live_client"
  assumes "isConnected s" and "serverContent m = Some sc" and "interrupted sc"
    and "\<not> tool_call_fails m"
  shows "sources (fst (handleMessage d s m)) = [] \<and>
         stopped (snd (handleMessage d s m))
           = sources s @ filter (\<lambda>sid. sid \<notin> set (sources s)) (started (snd (handleMessage d s m))) \<and>
         set (sources s) \<subseteq> set (stopped (snd (handleMessage d s m))) \<and>
         set (started (snd (handleMessage d s m))) \<subseteq> set (stopped (snd (handleMessage d s m))) \<and>
         nextStartTime (fst (handleMessage d s m)) = 0 \<and>
         currentOutputTranscription (fst (handleMessage d s m)) = [] \<and>
         session (fst (handleMessage d s m)) = session s \<and>
         isConnected (fst (handleMessage d s m)) = isConnected s \<and>
         (\<not> text_missing (inputTranscription sc) \<longrightarrow>
            currentInputTranscription (fst (handleMessage d s m))
              = (if turnComplete sc then []
                 else currentInputTranscription s
                      @ (case input_fragment m of None \<Rightarrow> [] | Some t \<Rightarrow> t)))"
proof -
  note hm = handleMessage_complete [OF assms(4)]
  have starts: "started (snd (handleMessage d s m)) = started (snd (handle_audio d s m))"
    using assms(1)
    by (simp add: hm Let_def started_append no_starts sources_handle_toolCall)
  have stops: "stopped (snd (handleMessage d s m)) = sources (fst (handle_audio d s m))"
    using assms(1-3)
    by (simp add: hm Let_def stopped_append no_stops sources_handle_toolCall
        handle_interrupted_effect stopped_map_SourceStop block_frames)
  have listed: "stopped (snd (handleMessage d s m))
      = sources s @ filter (\<lambda>sid. sid \<notin> set (sources s)) (started (snd (handleMessage d s m)))"
    unfolding stops starts by (rule sources_handle_audio)
  have inp: "currentInputTranscription (fst (handleMessage d s m))
           = (if turnComplete sc then []
              else currentInputTranscription s
                   @ (case input_fragment m of None \<Rightarrow> [] | Some t \<Rightarrow> t))"
    if "\<not> text_missing (inputTranscription sc)"
    using assms(1) input_after_blocks [OF assms(2) that, of "fst (handle_audio d s m)"]
    by (simp add: hm Let_def block_frames)
  have rest: "sources (fst (handleMessage d s m)) = []"
    "nextStartTime (fst (handleMessage d s m)) = 0"
    "currentOutputTranscription (fst (handleMessage d s m)) = []"
    using assms(1-3) by (simp_all add: hm Let_def handle_interrupted_effect)
  have held: "set (sources s) \<subseteq> set (stopped (snd (handleMessage d s m)))"
    by (subst listed) simp
  have new: "set (started (snd (handleMessage d s m))) \<subseteq> set (stopped (snd (handleMessage d s m)))"
    by (subst listed) auto
  show ?thesis
    using listed held new inp rest by (simp add: handleMessage_frame)
qed

text \<open>
  A connected client with two playback sources in its set and both accumulators filled,
  handling a message that carries an audio chunk and the interruption: the chunk is
  started as source 6 and stopped with the sources 3 and 5.
\<close>

theorem C2_interruption_witness:
  "isConnected playing_client \<and>
   is_interrupted (interrupted_audio_message ''AID/fw=='') \<and>
   \<not> tool_call_fails (interrupted_audio_message ''AID/fw=='') \<and>
   sources playing_client = [3, 5] \<and>
   started (snd (handleMessage seconds playing_client (interrupted_audio_message ''AID/fw==''))) = [6] \<and>
   stopped (snd (handleMessage seconds playing_client (interrupted_audio_message ''AID/fw==''))) = [3, 5, 6] \<and>
   sources (fst (handleMessage seconds playing_client (interrupted_audio_message ''AID/fw==''))) = [] \<and>
   nextStartTime (fst (handleMessage seconds playing_client (interrupted_audio_message ''AID/fw==''))) = 0 \<and>
   currentOutputTranscription
     (fst (handleMessage seconds playing_client (interrupted_audio_message ''AID/fw==''))) = [] \<and>
   currentInputTranscription
     (fst (handleMessage seconds playing_client (interrupted_audio_message ''AID/fw==''))) = ''in'' \<and>
   session (fst (handleMessage seconds playing_client (interrupted_audio_message ''AID/fw==''))) = Some LiveSession \<and>
   isConnected (fst (handleMessage seconds playing_client (interrupted_audio_message ''AID/fw=='')))"
proof -
  define m where "m = interrupted_audio_message ''AID/fw==''"
  define sc where "sc = empty_content\<lparr>modelTurn :=
          Some \<lparr>parts = Some [\<lparr>inlineData = Some \<lparr>inline_payload = Some ''AID/fw==''\<rparr>\<rparr>]\<rparr>,
          interrupted := True\<rparr>"
  have a: "isConnected playing_client"
    by (simp add: playing_client_def connected_client_eq)
  have b: "serverContent m = Some sc"
    by (simp add: m_def sc_def interrupted_audio_message_def content_message_def)
  have c: "interrupted sc"
    by (simp add: sc_def)
  have d: "\<not> tool_call_fails m"
    by (simp add: m_def tool_call_fails_def interrupted_audio_message_def content_message_def)
  have audio: "snd (handle_audio seconds playing_client m)
      = [SourceStart 6 7 two_frames]"
    by (simp add: handle_audio_def base64Audio_def m_def interrupted_audio_message_def
        content_message_def empty_content_def playing_client_def connected_client_eq
        running_context_def decode_example decodeAudioData_example Let_def)
  have st: "started (snd (handleMessage seconds playing_client m)) = [6]"
    using a by (simp add: handleMessage_complete [OF d] Let_def started_append no_starts
        sources_handle_toolCall audio)
  have e: "\<not> text_missing (inputTranscription sc)" "\<not> turnComplete sc"
    "input_fragment m = None" "is_interrupted m"
    "sources playing_client = [3, 5]" "currentInputTranscription playing_client = ''in''"
    "session playing_client = Some LiveSession"
    by (simp_all add: sc_def m_def text_missing_def empty_content_def input_fragment_def
        fragment_text_def is_interrupted_def interrupted_audio_message_def content_message_def
        playing_client_def connected_client_eq)
  show ?thesis
    using C2_interruption [OF a b c d, of seconds] a d e st
    by (simp add: m_def [symmetric])
qed

text \<open>
  The claim as first stated has the accumulated input transcription unchanged by every
  message that carries the interruption. A message that carries an input transcription
  together with the interruption changes it.
\<close>

theorem C2_input_transcription_counterexample:
  "isConnected connected_client \<and>
   is_interrupted (interrupted_input_message ''hi'') \<and>
   currentInputTranscription connected_client = [] \<and>
   currentInputTranscription
     (fst (handleMessage seconds connected_client (interrupted_input_message ''hi''))) = ''hi''"
  by (simp add: connected_client_eq is_interrupted_def interrupted_input_message_def
      content_message_def empty_content_def handleMessage_def handle_audio_def base64Audio_def
      handle_inputTranscription_def handle_outputTranscription_def handle_toolCall_def
      handle_turnComplete_def handle_interrupted_def js_string_def Let_def)

text \<open>
  What the amended claim leaves out: a message whose tool call ends in an exception never
  reaches the blocks for the completed turn and for the interruption. The client with two
  playback sources stays as it is, and nothing is stopped.
\<close>

lemma failed_tool_call_skips_interruption:
  "is_interrupted failing_closing_message \<and> turn_complete failing_closing_message \<and>
   tool_call_fails failing_closing_message \<and>
   handleMessage seconds playing_client failing_closing_message
     = (playing_client, [ConsoleError ''Msg Error:''])"
proof -
  have a: "tool_call_fails failing_closing_message"
    by (simp add: tool_call_fails_def failing_closing_message_def lacks_arguments_def
        bare_call_def)
  have b: "handleMessage seconds playing_client failing_closing_message
     = (playing_client, [ConsoleError ''Msg Error:''])"
    by (simp add: handleMessage_def Let_def playing_client_def connected_client_eq
        handle_audio_def base64Audio_def handle_inputTranscription_def
        handle_outputTranscription_def handle_toolCall_def failing_closing_message_def
        empty_content_def bare_call_def)
  show ?thesis
    using a b
    by (simp add: is_interrupted_def turn_complete_def failing_closing_message_def)
qed

subsection \<open>C3: the transcriptions\<close>

lemma run_append:
  "run d s (xs @ ys) =
     (fst (run d (fst (run d s xs)) ys), snd (run d s xs) @ snd (run d (fst (run d s xs)) ys))"
  by (induction xs arbitrary: s) (simp_all add: case_prod_beta)

lemma run_snoc:
  "fst (run d s (evs @ [ev])) = fst (step d (fst (run d s evs)) ev)"
  by (simp add: run_append case_prod_beta)

lemma run_connected: "isConnected (fst (run d s evs)) = isConnected s"
  by (induction evs arbitrary: s) (simp_all add: case_prod_beta step_frame)

lemma messages_of_append: "messages_of (xs @ ys) = messages_of xs @ messages_of ys"
  by (induction xs rule: messages_of.induct) auto

lemma since_last_snoc:
  "since_last P (xs @ [x]) = (if P x then [] else since_last P xs @ [x])"
  by (simp add: since_last_def)

lemma fragments_append: "fragments f (xs @ ys) = fragments f xs @ fragments f ys"
  by (simp add: fragments_def)

lemma fragments_Nil: "fragments f [] = []"
  by (simp add: fragments_def)

lemma fragments_single: "fragments f [m] = (case f m of None \<Rightarrow> [] | Some t \<Rightarrow> t)"
  by (simp add: fragments_def)

lemma complete_messageD:
  "complete_message m \<Longrightarrow> \<not> tool_call_fails m"
  "complete_message m \<Longrightarrow> \<not> lacks_text m"
  by (simp_all add: complete_message_def)

lemma handleMessage_input:
  "isConnected s \<Longrightarrow> complete_message m \<Longrightarrow>
   currentInputTranscription (fst (handleMessage d s m))
     = (if turn_complete m then []
        else currentInputTranscription s @ (case input_fragment m of None \<Rightarrow> [] | Some t \<Rightarrow> t))"
  by (auto simp add: handleMessage_complete complete_message_def lacks_text_def text_missing_def
      Let_def block_frames handle_turnComplete_def handle_inputTranscription_def
      input_fragment_def fragment_text_def js_string_def turn_complete_def
      split: option.splits)

lemma handleMessage_output:
  "isConnected s \<Longrightarrow> complete_message m \<Longrightarrow>
   currentOutputTranscription (fst (handleMessage d s m))
     = (if turn_complete m \<or> is_interrupted m then []
        else currentOutputTranscription s @ (case output_fragment m of None \<Rightarrow> [] | Some t \<Rightarrow> t))"
  by (auto simp add: handleMessage_complete complete_message_def lacks_text_def text_missing_def
      Let_def block_frames handle_turnComplete_def handle_interrupted_def
      handle_outputTranscription_def output_fragment_def fragment_text_def js_string_def
      turn_complete_def is_interrupted_def split: option.splits)

lemma run_input:
  assumes "isConnected s" and "\<forall>m \<in> set (messages_of evs). complete_message m"
  shows "currentInputTranscription (fst (run d s evs))
           = (if list_ex turn_complete (messages_of evs) then []
              else currentInputTranscription s)
             @ fragments input_fragment (since_last turn_complete (messages_of evs))"
  using assms(2)
proof (induction evs rule: rev_induct)
  case Nil
  then show ?case by (simp add: since_last_def fragments_def)
next
  case (snoc ev evs)
  have c: "isConnected (fst (run d s evs))"
    using assms(1) by (simp add: run_connected)
  have IH: "currentInputTranscription (fst (run d s evs))
           = (if list_ex turn_complete (messages_of evs) then []
              else currentInputTranscription s)
             @ fragments input_fragment (since_last turn_complete (messages_of evs))"
    using snoc by (simp add: messages_of_append)
  show ?case
  proof (cases ev)
    case (ServerMessage m)
    then have "complete_message m"
      using snoc.prems by (simp add: messages_of_append)
    then show ?thesis
      using ServerMessage IH c
      by (simp add: run_snoc handleMessage_input messages_of_append since_last_snoc
          fragments_append fragments_single fragments_Nil)
  qed (use IH c in \<open>simp_all add: run_snoc messages_of_append onaudioprocess_def
         advance_clock_def source_ended_def split: option.splits\<close>)
qed

lemma run_output:
  assumes "isConnected s" and "\<forall>m \<in> set (messages_of evs). complete_message m"
  shows "currentOutputTranscription (fst (run d s evs))
           = (if list_ex (\<lambda>m. turn_complete m \<or> is_interrupted m) (messages_of evs) then []
              else currentOutputTranscription s)
             @ fragments output_fragment
                 (since_last (\<lambda>m. turn_complete m \<or> is_interrupted m) (messages_of evs))"
  using assms(2)
proof (induction evs rule: rev_induct)
  case Nil
  then show ?case by (simp add: since_last_def fragments_def)
next
  case (snoc ev evs)
  have c: "isConnected (fst (run d s evs))"
    using assms(1) by (simp add: run_connected)
  have IH: "currentOutputTranscription (fst (run d s evs))
           = (if list_ex (\<lambda>m. turn_complete m \<or> is_interrupted m) (messages_of evs) then []
              else currentOutputTranscription s)
             @ fragments output_fragment
                 (since_last (\<lambda>m. turn_complete m \<or> is_interrupted m) (messages_of evs))"
    using snoc by (simp add: messages_of_append)
  show ?case
  proof (cases ev)
    case (ServerMessage m)
    then have "complete_message m"
      using snoc.prems by (simp add: messages_of_append)
    then show ?thesis
      using ServerMessage IH c
      by (simp add: run_snoc handleMessage_output messages_of_append since_last_snoc
          fragments_append fragments_single fragments_Nil)
  qed (use IH c in \<open>simp_all add: run_snoc messages_of_append onaudioprocess_def
         advance_clock_def source_ended_def split: option.splits\<close>)
qed

lemma input_callbacks_append: "input_callbacks (xs @ ys) = input_callbacks xs @ input_callbacks ys"
  by (induction xs rule: input_callbacks.induct) auto

lemma output_callbacks_append: "output_callbacks (xs @ ys) = output_callbacks xs @ output_callbacks ys"
  by (induction xs rule: output_callbacks.induct) auto

lemma callbacks_toolCall_loop:
  "input_callbacks (fst (toolCall_loop s fcs)) = []"
  "output_callbacks (fst (toolCall_loop s fcs)) = []"
  by (induction fcs) (auto split: option.splits prod.splits)

lemma callbacks_handle_toolCall:
  "input_callbacks (fst (handle_toolCall s m)) = []"
  "output_callbacks (fst (handle_toolCall s m)) = []"
  by (simp_all add: handle_toolCall_def callbacks_toolCall_loop split: option.splits)

lemma callbacks_map_SourceStop:
  "input_callbacks (map SourceStop xs) = []" "output_callbacks (map SourceStop xs) = []"
  by (induction xs) auto

lemma block_input_callbacks:
  "input_callbacks (snd (handle_audio d s m)) = []"
  "\<not> lacks_text m \<Longrightarrow>
   input_callbacks (snd (handle_inputTranscription s m))
     = (case input_fragment m of None \<Rightarrow> [] | Some t \<Rightarrow> [currentInputTranscription s @ t])"
  "input_callbacks (snd (handle_outputTranscription s m)) = []"
  "input_callbacks (snd (handle_turnComplete s m)) = []"
  "input_callbacks (snd (handle_interrupted s m)) = []"
  by (auto simp add: handle_audio_def handle_inputTranscription_def handle_outputTranscription_def
      handle_turnComplete_def handle_interrupted_def Let_def lacks_text_def text_missing_def
      input_fragment_def fragment_text_def js_string_def callbacks_map_SourceStop
      split: option.splits sum.splits)

lemma block_output_callbacks:
  "output_callbacks (snd (handle_audio d s m)) = []"
  "output_callbacks (snd (handle_inputTranscription s m)) = []"
  "\<not> lacks_text m \<Longrightarrow>
   output_callbacks (snd (handle_outputTranscription s m))
     = (case output_fragment m of None \<Rightarrow> [] | Some t \<Rightarrow> [currentOutputTranscription s @ t])"
  "output_callbacks (snd (handle_turnComplete s m)) = []"
  "output_callbacks (snd (handle_interrupted s m)) = []"
  by (auto simp add: handle_audio_def handle_inputTranscription_def handle_outputTranscription_def
      handle_turnComplete_def handle_interrupted_def Let_def lacks_text_def text_missing_def
      output_fragment_def fragment_text_def js_string_def callbacks_map_SourceStop
      split: option.splits sum.splits)

lemma handleMessage_input_callbacks:
  "isConnected s \<Longrightarrow> complete_message m \<Longrightarrow>
   input_callbacks (snd (handleMessage d s m))
     = (case input_fragment m of None \<Rightarrow> [] | Some t \<Rightarrow> [currentInputTranscription s @ t])"
  by (simp add: handleMessage_complete complete_messageD Let_def input_callbacks_append
      block_input_callbacks callbacks_handle_toolCall block_frames split: option.splits)

lemma handleMessage_output_callbacks:
  "isConnected s \<Longrightarrow> complete_message m \<Longrightarrow>
   output_callbacks (snd (handleMessage d s m))
     = (case output_fragment m of None \<Rightarrow> [] | Some t \<Rightarrow> [currentOutputTranscription s @ t])"
  by (simp add: handleMessage_complete complete_messageD Let_def output_callbacks_append
      block_output_callbacks callbacks_handle_toolCall block_frames split: option.splits)

lemma handleMessage_turnComplete:
  "isConnected s \<Longrightarrow> complete_message m \<Longrightarrow> turn_complete m \<Longrightarrow>
   OnTurnComplete \<in> set (snd (handleMessage d s m))"
  by (auto simp add: handleMessage_complete complete_messageD Let_def handle_turnComplete_def
      turn_complete_def split: option.splits)

text \<open>
  Claim C3, as amended. Let a connected client handle any sequence of events whose
  messages are complete (every transcription comes with its text, and no tool call ends
  in an exception), and then one more complete message. When that message carries an input
  transcription, \<^verbatim>\<open>onInputTranscription\<close> is called exactly once, with the concatenation, in
  the order of arrival, of the input fragments received since the last message that
  completed a turn, this message's fragment last. When the message carries an output
  transcription, \<^verbatim>\<open>onOutputTranscription\<close> is called exactly once, with the concatenation
  of the output fragments received since the last message that completed a turn or carried
  an interruption, this message's fragment last. (As long as no such message has arrived,
  the fragments follow what the accumulator held at the start, which is nothing for a new
  client.) When the message completes the turn, \<^verbatim>\<open>onTurnComplete\<close> is called and both
  accumulators are empty afterwards.
\<close>

theorem C3_transcriptions:
  fixes s :: "('t::{linorder,plus,zero}) live_client"
  assumes "isConnected s" and "\<forall>m' \<in> set (messages_of evs). complete_message m'"
    and "complete_message m"
  shows
    "input_callbacks (snd (handleMessage d (fst (run d s evs)) m))
       = (case input_fragment m of
            None \<Rightarrow> []
          | Some t \<Rightarrow>
              [(if list_ex turn_complete (messages_of evs) then []
                else currentInputTranscription s)
               @ fragments input_fragment (since_last turn_complete (messages_of evs)) @ t]) \<and>
     output_callbacks (snd (handleMessage d (fst (run d s evs)) m))
       = (case output_fragment m of
            None \<Rightarrow> []
          | Some t \<Rightarrow>
              [(if list_ex (\<lambda>m. turn_complete m \<or> is_interrupted m) (messages_of evs) then []
                else currentOutputTranscription s)
               @ fragments output_fragment
                   (since_last (\<lambda>m. turn_complete m \<or> is_interrupted m) (messages_of evs))
               @ t]) \<and>
     (turn_complete m \<longrightarrow>
        OnTurnComplete \<in> set (snd (handleMessage d (fst (run d s evs)) m)) \<and>
        currentInputTranscription (fst (handleMessage d (fst (run d s evs)) m)) = [] \<and>
        currentOutputTranscription (fst (handleMessage d (fst (run d s evs)) m)) = [])"
proof -
  have c: "isConnected (fst (run d s evs))"
    using assms(1) by (simp add: run_connected)
  show ?thesis
    using c assms(3)
    by (simp add: handleMessage_input_callbacks handleMessage_output_callbacks
        handleMessage_turnComplete handleMessage_input handleMessage_output
        run_input [OF assms(1,2)] run_output [OF assms(1,2)] split: option.splits)
qed

lemmas message_defs = content_message_def empty_content_def audio_message_def
  input_message_def output_message_def interrupted_message_def turn_complete_message_def
  tool_message_def interrupted_input_message_def closing_message_def

lemmas observation_defs = input_fragment_def output_fragment_def fragment_text_def
  turn_complete_def is_interrupted_def since_last_def fragments_def complete_message_def
  lacks_text_def text_missing_def tool_call_fails_def

text \<open>
  Two input fragments and an output fragment, then a message that carries one more of each
  and completes the turn.
\<close>

theorem C3_transcriptions_witness:
  "isConnected connected_client \<and> turn_complete closing_message \<and>
   complete_message closing_message \<and>
   list_all complete_message
     (messages_of ([ServerMessage (input_message ''Hel''), ServerMessage (output_message ''Nama''),
          ClockAdvance 1, ServerMessage (input_message ''lo'')] :: rat event list)) \<and>
   currentInputTranscription connected_client = [] \<and>
   currentOutputTranscription connected_client = [] \<and>
   input_callbacks (snd (handleMessage seconds
      (fst (run seconds connected_client
         [ServerMessage (input_message ''Hel''), ServerMessage (output_message ''Nama''),
          ClockAdvance 1, ServerMessage (input_message ''lo'')]))
      closing_message)) = [''Hello!''] \<and>
   output_callbacks (snd (handleMessage seconds
      (fst (run seconds connected_client
         [ServerMessage (input_message ''Hel''), ServerMessage (output_message ''Nama''),
          ClockAdvance 1, ServerMessage (input_message ''lo'')]))
      closing_message)) = [''Namaste''] \<and>
   OnTurnComplete \<in> set (snd (handleMessage seconds
      (fst (run seconds connected_client
         [ServerMessage (input_message ''Hel''), ServerMessage (output_message ''Nama''),
          ClockAdvance 1, ServerMessage (input_message ''lo'')]))
      closing_message)) \<and>
   currentInputTranscription (fst (handleMessage seconds
      (fst (run seconds connected_client
         [ServerMessage (input_message ''Hel''), ServerMessage (output_message ''Nama''),
          ClockAdvance 1, ServerMessage (input_message ''lo'')]))
      closing_message)) = []"
proof -
  have a: "isConnected connected_client"
    by (simp add: connected_client_eq)
  have e: "currentInputTranscription connected_client = []"
    "currentOutputTranscription connected_client = []"
    by (simp_all add: connected_client_eq)
  have b: "turn_complete closing_message" "complete_message closing_message"
    by (simp_all add: observation_defs message_defs)
  have f: "\<forall>m' \<in> set (messages_of ([ServerMessage (input_message ''Hel''),
          ServerMessage (output_message ''Nama''), ClockAdvance 1,
          ServerMessage (input_message ''lo'')] :: rat event list)). complete_message m'"
    by (simp add: observation_defs message_defs)
  show ?thesis
    using a b e f
      C3_transcriptions [OF a f b(2), of seconds]
    by (simp add: observation_defs message_defs)
qed

text \<open>
  The claim as first stated counts the output fragments, like the input fragments, from
  the last turn completion. An interruption in between clears the output accumulator: after
  the fragment \<^verbatim>\<open>a\<close> and an interruption, the fragment \<^verbatim>\<open>b\<close> is reported as \<^verbatim>\<open>b\<close>, not as
  \<^verbatim>\<open>ab\<close>.
\<close>

theorem C3_output_counterexample:
  "isConnected connected_client \<and> currentOutputTranscription connected_client = [] \<and>
   output_callbacks (snd (handleMessage seconds
      (fst (run seconds connected_client
         [ServerMessage (output_message ''a''), ServerMessage interrupted_message]))
      (output_message ''b''))) = [''b''] \<and>
   fragments output_fragment
     (since_last turn_complete
        (messages_of ([ServerMessage (output_message ''a''),
                       ServerMessage interrupted_message] :: rat event list)))
     @ ''b'' = ''ab''"
proof -
  have a: "isConnected connected_client" "currentOutputTranscription connected_client = []"
    by (simp_all add: connected_client_eq)
  define evs :: "rat event list"
    where "evs = [ServerMessage (output_message ''a''), ServerMessage interrupted_message]"
  have c: "isConnected (fst (run seconds connected_client evs))"
    using a(1) by (simp only: run_connected)
  have f: "\<forall>m \<in> set (messages_of evs). complete_message m"
    by (simp add: evs_def observation_defs message_defs)
  have g: "complete_message (output_message ''b'')"
    by (simp add: observation_defs message_defs)
  have "output_callbacks (snd (handleMessage seconds (fst (run seconds connected_client evs))
          (output_message ''b'')))
        = (case output_fragment (output_message ''b'') of
             None \<Rightarrow> []
           | Some t \<Rightarrow>
               [((if list_ex (\<lambda>m. turn_complete m \<or> is_interrupted m) (messages_of evs) then []
                  else currentOutputTranscription connected_client)
                 @ fragments output_fragment
                  (since_last (\<lambda>m. turn_complete m \<or> is_interrupted m) (messages_of evs))) @ t])"
    by (simp only: handleMessage_output_callbacks [OF c g] run_output [OF a(1) f])
  also have "\<dots> = [''b'']"
    by (simp add: evs_def observation_defs message_defs)
  finally show ?thesis
    using a by (simp add: evs_def observation_defs message_defs)
qed
text \<open>
  What the amended claim leaves out: a transcription without its text is appended as the
  word \<^verbatim>\<open>undefined\<close>.
\<close>

lemma transcription_without_text:
  "lacks_text textless_input_message \<and> input_fragment textless_input_message = None \<and>
   handleMessage seconds connected_client textless_input_message
     = (connected_client\<lparr>currentInputTranscription := ''undefined''\<rparr>,
        [OnInputTranscription ''undefined''])"
  by (simp add: connected_client_eq handleMessage_def handle_audio_def base64Audio_def
      handle_inputTranscription_def handle_outputTranscription_def handle_toolCall_def
      handle_turnComplete_def handle_interrupted_def textless_input_message_def
      content_message_def empty_content_def js_string_def lacks_text_def text_missing_def
      input_fragment_def fragment_text_def Let_def)

subsection \<open>C1: the playback timeline\<close>

lemma scheduled_append: "scheduled (xs @ ys) = scheduled xs @ scheduled ys"
  by (induction xs rule: scheduled.induct) auto

lemma scheduled_toolCall_loop: "scheduled (fst (toolCall_loop s fcs)) = []"
  by (induction fcs) (auto split: option.splits prod.splits)

lemma scheduled_map_SourceStop: "scheduled (map SourceStop xs) = []"
  by (induction xs) auto

lemma block_scheduled:
  "scheduled (snd (handle_inputTranscription s m)) = []"
  "scheduled (snd (handle_outputTranscription s m)) = []"
  "scheduled (fst (handle_toolCall s m)) = []"
  "scheduled (snd (handle_turnComplete s m)) = []"
  "scheduled (snd (handle_interrupted s m)) = []"
  by (simp_all add: handle_inputTranscription_def handle_outputTranscription_def
      handle_toolCall_def handle_turnComplete_def handle_interrupted_def Let_def
      scheduled_toolCall_loop scheduled_map_SourceStop split: option.splits)

text \<open>The audio block, by the chunk the message carries.\<close>

lemma handle_audio_chunk:
  assumes "outputAudioContext s = Some ctx" and "outputNode s = Some node"
  shows "decoded_chunk m = Some (Inr buf) \<Longrightarrow>
           scheduled (snd (handle_audio d s m)) = [(max (nextStartTime s) (currentTime ctx), buf)] \<and>
           nextStartTime (fst (handle_audio d s m)) = max (nextStartTime s) (currentTime ctx) + d buf"
    and "decoded_chunk m = Some (Inl e) \<Longrightarrow>
           scheduled (snd (handle_audio d s m)) = [] \<and>
           nextStartTime (fst (handle_audio d s m)) = max (nextStartTime s) (currentTime ctx)"
    and "decoded_chunk m = None \<Longrightarrow>
           scheduled (snd (handle_audio d s m)) = [] \<and>
           nextStartTime (fst (handle_audio d s m)) = nextStartTime s"
  using assms
  by (auto simp add: handle_audio_def decoded_chunk_def Let_def split: option.splits sum.splits if_splits)

lemma handle_audio_no_context:
  "outputAudioContext s = None \<or> outputNode s = None \<Longrightarrow> handle_audio d s m = (s, [])"
  by (auto simp add: handle_audio_def split: option.splits)

lemma handleMessage_schedule:
  assumes "isConnected s"
  shows "scheduled (snd (handleMessage d s m)) = scheduled (snd (handle_audio d s m))"
    and "\<not> is_interrupted m \<Longrightarrow>
         nextStartTime (fst (handleMessage d s m)) = nextStartTime (fst (handle_audio d s m))"
  using assms
  by (simp_all add: handleMessage_blocks Let_def scheduled_append block_scheduled block_frames
      handle_interrupted_def is_interrupted_def scheduled_map_SourceStop split: option.splits)

lemma handleMessage_chunk:
  assumes "isConnected s" and "outputAudioContext s = Some ctx" and "outputNode s = Some node"
    and "\<not> is_interrupted m"
  shows "decoded_chunk m = Some (Inr buf) \<Longrightarrow>
           scheduled (snd (handleMessage d s m)) = [(max (nextStartTime s) (currentTime ctx), buf)] \<and>
           nextStartTime (fst (handleMessage d s m)) = max (nextStartTime s) (currentTime ctx) + d buf"
    and "decoded_chunk m = Some (Inl e) \<Longrightarrow>
           scheduled (snd (handleMessage d s m)) = [] \<and>
           nextStartTime (fst (handleMessage d s m)) = max (nextStartTime s) (currentTime ctx)"
    and "decoded_chunk m = None \<Longrightarrow>
           scheduled (snd (handleMessage d s m)) = [] \<and>
           nextStartTime (fst (handleMessage d s m)) = nextStartTime s"
  using handle_audio_chunk [OF assms(2,3)]
  by (simp_all add: handleMessage_schedule [OF assms(1)] assms(4))

text \<open>The run against the timeline: the invariant relates the code's \<open>nextStartTime\<close> to
  the end \<open>prev\<close> of the chunk scheduled last.\<close>

lemma run_timeline:
  fixes s :: "('t::{linorder,plus,zero}) live_client"
  assumes "isConnected s" and "outputAudioContext s = Some ctx" and "outputNode s = Some node"
    and "\<forall>ev \<in> set evs. \<not> interrupting ev"
    and "prev \<le> nextStartTime s" and "nextStartTime s \<le> max (currentTime ctx) prev"
  shows "scheduled (snd (run d s evs)) = timeline d prev (currentTime ctx) evs"
  using assms
proof (induction evs arbitrary: s ctx prev)
  case Nil
  then show ?case by simp
next
  case (Cons ev evs)
  show ?case
  proof (cases ev)
    case (ServerMessage m)
    with Cons.prems have ni: "\<not> is_interrupted m" by simp
    note hm = handleMessage_chunk [OF Cons.prems(1,2,3) ni]
    have fr: "isConnected (fst (handleMessage d s m))"
      "outputAudioContext (fst (handleMessage d s m)) = Some ctx"
      "outputNode (fst (handleMessage d s m)) = Some node"
      using Cons.prems(1,2,3) by (simp_all add: handleMessage_frame)
    have rest: "\<forall>ev \<in> set evs. \<not> interrupting ev" using Cons.prems(4) by simp
    have mx: "max (nextStartTime s) (currentTime ctx) = max (currentTime ctx) prev"
      using Cons.prems(5,6) by (auto simp: max_def split: if_splits)
    show ?thesis
    proof (cases "decoded_chunk m")
      case None
      with hm(3) have h: "scheduled (snd (handleMessage d s m)) = []"
        "nextStartTime (fst (handleMessage d s m)) = nextStartTime s" by simp_all
      have "scheduled (snd (run d (fst (handleMessage d s m)) evs)) = timeline d prev (currentTime ctx) evs"
        using Cons.prems(5,6) h by (intro Cons.IH fr rest) simp_all
      with None h ServerMessage show ?thesis
        by (simp add: case_prod_beta scheduled_append)
    next
      case (Some r)
      show ?thesis
      proof (cases r)
        case (Inl e)
        with Some hm(2) have h: "scheduled (snd (handleMessage d s m)) = []"
          "nextStartTime (fst (handleMessage d s m)) = max (nextStartTime s) (currentTime ctx)"
          by simp_all
        have "scheduled (snd (run d (fst (handleMessage d s m)) evs)) = timeline d prev (currentTime ctx) evs"
          using Cons.prems(5,6) h by (intro Cons.IH fr rest) (auto simp: le_max_iff_disj)
        with Some Inl h ServerMessage show ?thesis
          by (simp add: case_prod_beta scheduled_append)
      next
        case (Inr buf)
        with Some hm(1) have h:
          "scheduled (snd (handleMessage d s m)) = [(max (nextStartTime s) (currentTime ctx), buf)]"
          "nextStartTime (fst (handleMessage d s m)) = max (nextStartTime s) (currentTime ctx) + d buf"
          by simp_all
        have "scheduled (snd (run d (fst (handleMessage d s m)) evs))
                = timeline d (max (currentTime ctx) prev + d buf) (currentTime ctx) evs"
          using h mx by (intro Cons.IH fr rest) (simp_all add: le_max_iff_disj)
        with Some Inr h mx ServerMessage show ?thesis
          by (simp add: case_prod_beta scheduled_append)
      qed
    qed
  next
    case (AudioProcess inputData)
    have "scheduled (snd (run d s evs)) = timeline d prev (currentTime ctx) evs"
      using Cons.prems by (intro Cons.IH) simp_all
    with AudioProcess show ?thesis
      by (simp add: case_prod_beta onaudioprocess_def scheduled_append)
  next
    case (ClockAdvance t)
    have "scheduled (snd (run d (advance_clock t s) evs))
            = timeline d prev (max (currentTime ctx) t) evs"
      using Cons.prems
        Cons.IH [of "advance_clock t s" "ctx\<lparr>currentTime := max (currentTime ctx) t\<rparr>" prev]
      by (auto simp add: advance_clock_def le_max_iff_disj)
    with ClockAdvance show ?thesis
      by (simp add: case_prod_beta)
  next
    case (SourceEnded sid)
    have "scheduled (snd (run d (source_ended sid s) evs)) = timeline d prev (currentTime ctx) evs"
      using Cons.prems by (intro Cons.IH) (simp_all add: source_ended_def)
    with SourceEnded show ?thesis
      by (simp add: case_prod_beta)
  qed
qed

lemma in_sequence_mono: "e' \<le> e \<Longrightarrow> in_sequence d e cs \<Longrightarrow> in_sequence d e' cs"
  by (cases cs) auto

lemma last_end_mono: "e' \<le> e \<Longrightarrow> last_end d e' cs \<le> last_end d e cs"
  for e :: "'t::{linorder,plus}"
  by (cases cs) auto

lemma last_end_nonempty: "cs \<noteq> [] \<Longrightarrow> last_end d e cs = last_end d e' cs"
  by (cases cs) auto

lemma handle_audio_cases:
  "(scheduled (snd (handle_audio d s m)) = [] \<and>
      nextStartTime s \<le> nextStartTime (fst (handle_audio d s m)) \<and>
      ((\<forall>e. decoded_chunk m \<noteq> Some (Inl e)) \<longrightarrow>
         nextStartTime (fst (handle_audio d s m)) = nextStartTime s))
   \<or> (\<exists>start buf. scheduled (snd (handle_audio d s m)) = [(start, buf)] \<and>
         nextStartTime s \<le> start \<and>
         nextStartTime (fst (handle_audio d s m)) = start + d buf)"
  by (auto simp add: handle_audio_def decoded_chunk_def Let_def
      split: option.splits sum.splits)

lemma step_cases:
  assumes "\<not> interrupting ev"
  shows
  "(scheduled (snd (step d s ev)) = [] \<and>
      nextStartTime s \<le> nextStartTime (fst (step d s ev)) \<and>
      (\<not> decode_failure ev \<longrightarrow> nextStartTime (fst (step d s ev)) = nextStartTime s))
   \<or> (\<exists>start buf. scheduled (snd (step d s ev)) = [(start, buf)] \<and>
         nextStartTime s \<le> start \<and>
         nextStartTime (fst (step d s ev)) = start + d buf)"
proof (cases ev)
  case (ServerMessage m)
  show ?thesis
  proof (cases "isConnected s")
    case True
    have df: "\<not> decode_failure ev \<Longrightarrow> \<forall>e. decoded_chunk m \<noteq> Some (Inl e)"
      using ServerMessage by (auto split: option.splits sum.splits)
    from handle_audio_cases [of d s m] show ?thesis
      using ServerMessage assms df handleMessage_schedule [OF True]
      by (simp only: step.simps interrupting.simps) metis
  next
    case False
    with ServerMessage show ?thesis by (simp add: handleMessage_def)
  qed
next
  case (AudioProcess inputData)
  then show ?thesis by (simp add: onaudioprocess_def)
next
  case (ClockAdvance t)
  then show ?thesis by (simp add: advance_clock_def split: option.splits)
next
  case (SourceEnded sid)
  then show ?thesis by (simp add: source_ended_def)
qed

lemma run_in_sequence:
  "\<forall>ev \<in> set evs. \<not> interrupting ev \<Longrightarrow>
   in_sequence d (nextStartTime s) (scheduled (snd (run d s evs))) \<and>
   last_end d (nextStartTime s) (scheduled (snd (run d s evs))) \<le> nextStartTime (fst (run d s evs)) \<and>
   ((\<forall>ev \<in> set evs. \<not> decode_failure ev) \<longrightarrow>
      nextStartTime (fst (run d s evs)) = last_end d (nextStartTime s) (scheduled (snd (run d s evs))))"
proof (induction evs arbitrary: s)
  case Nil
  then show ?case by simp
next
  case (Cons ev evs)
  define s1 where "s1 = fst (step d s ev)"
  define rest where "rest = scheduled (snd (run d s1 evs))"
  have ni: "\<not> interrupting ev" and nis: "\<forall>ev \<in> set evs. \<not> interrupting ev"
    using Cons.prems by simp_all
  have IH: "in_sequence d (nextStartTime s1) rest"
    "last_end d (nextStartTime s1) rest \<le> nextStartTime (fst (run d s1 evs))"
    "(\<forall>ev \<in> set evs. \<not> decode_failure ev) \<longrightarrow>
       nextStartTime (fst (run d s1 evs)) = last_end d (nextStartTime s1) rest"
    using Cons.IH [OF nis, of s1] by (simp_all add: rest_def)
  have run: "fst (run d s (ev # evs)) = fst (run d s1 evs)"
    "scheduled (snd (run d s (ev # evs))) = scheduled (snd (step d s ev)) @ rest"
    by (simp_all add: case_prod_beta scheduled_append s1_def rest_def)
  from step_cases [OF ni, of d s] show ?case
  proof (elim disjE conjE exE)
    assume e: "scheduled (snd (step d s ev)) = []"
      and le: "nextStartTime s \<le> nextStartTime (fst (step d s ev))"
      and eq: "\<not> decode_failure ev \<longrightarrow> nextStartTime (fst (step d s ev)) = nextStartTime s"
    have 1: "in_sequence d (nextStartTime s) rest"
      using IH(1) le by (auto intro: in_sequence_mono simp: s1_def)
    have 2: "last_end d (nextStartTime s) rest \<le> nextStartTime (fst (run d s1 evs))"
      using last_end_mono [of "nextStartTime s" "nextStartTime s1" d rest] le IH(2)
      by (auto simp: s1_def)
    have 3: "(\<forall>ev \<in> set (ev # evs). \<not> decode_failure ev) \<longrightarrow>
       nextStartTime (fst (run d s1 evs)) = last_end d (nextStartTime s) rest"
      using IH(3) eq by (auto simp: s1_def)
    show ?thesis
      unfolding run e using 1 2 3 by simp
  next
    fix start buf
    assume e: "scheduled (snd (step d s ev)) = [(start, buf)]"
      and le: "nextStartTime s \<le> start"
      and eq: "nextStartTime (fst (step d s ev)) = start + d buf"
    show ?thesis
      unfolding run e using IH le eq by (simp add: s1_def)
  qed
qed

text \<open>The example audio: four bytes, two frames.\<close>

lemma chunk_example: "decoded_chunk (audio_message ''AID/fw=='') = Some (Inr two_frames)"
  by (simp add: decoded_chunk_def base64Audio_def audio_message_def content_message_def
      empty_content_def decode_example decodeAudioData_example)

lemma chunk_bad: "decoded_chunk (audio_message ''!'') = Some (Inl InvalidCharacterError)"
  by (simp add: decoded_chunk_def base64Audio_def audio_message_def content_message_def
      empty_content_def decode_bad)

lemma audio_not_interrupted: "\<not> is_interrupted (audio_message b64)"
  by (simp add: is_interrupted_def audio_message_def content_message_def empty_content_def)

text \<open>
  Claim C1, as amended. A connected client with its output context and output node
  schedules the chunk decoded from a message to start at the maximum of \<^verbatim>\<open>nextStartTime\<close>
  and the clock of the output context, and (the message carrying no interruption) then
  sets \<^verbatim>\<open>nextStartTime\<close> to that start plus the chunk's duration. Let it handle any sequence
  of events none of which is a message carrying an interruption. Then the chunks it
  schedules are those of the timeline: each decoded chunk starts at the
  maximum of the clock of the output context and the end of the chunk scheduled before it
  (at first: the value \<^verbatim>\<open>nextStartTime\<close> had), and ends after its duration; so every chunk
  starts no earlier than its predecessor ends, and exactly then when the predecessor has
  not finished playing. \<^verbatim>\<open>nextStartTime\<close> is never less than the end of the last scheduled
  chunk, and equals it as long as no message carried audio data that failed to decode.
\<close>

theorem C1_playback_timeline:
  fixes s :: "('t::{linorder,plus,zero}) live_client"
  assumes "isConnected s" and "outputAudioContext s = Some ctx" and "outputNode s = Some node"
    and "\<forall>ev \<in> set evs. \<not> interrupting ev"
  shows "(\<not> is_interrupted m \<and> decoded_chunk m = Some (Inr buf) \<longrightarrow>
            scheduled (snd (handleMessage d s m))
              = [(max (nextStartTime s) (currentTime ctx), buf)] \<and>
            nextStartTime (fst (handleMessage d s m))
              = max (nextStartTime s) (currentTime ctx) + d buf) \<and>
         scheduled (snd (run d s evs)) = timeline d (nextStartTime s) (currentTime ctx) evs \<and>
         in_sequence d (nextStartTime s) (scheduled (snd (run d s evs))) \<and>
         last_end d (nextStartTime s) (scheduled (snd (run d s evs)))
           \<le> nextStartTime (fst (run d s evs)) \<and>
         ((\<forall>ev \<in> set evs. \<not> decode_failure ev) \<longrightarrow>
            nextStartTime (fst (run d s evs))
              = last_end d (nextStartTime s) (scheduled (snd (run d s evs))))"
proof -
  have one: "scheduled (snd (handleMessage d s m))
              = [(max (nextStartTime s) (currentTime ctx), buf)] \<and>
            nextStartTime (fst (handleMessage d s m))
              = max (nextStartTime s) (currentTime ctx) + d buf"
    if "\<not> is_interrupted m \<and> decoded_chunk m = Some (Inr buf)"
    using that handleMessage_chunk(1) [OF assms(1,2,3)] by blast
  have "scheduled (snd (run d s evs)) = timeline d (nextStartTime s) (currentTime ctx) evs"
    using assms by (intro run_timeline) simp_all
  then show ?thesis
    using run_in_sequence [OF assms(4), of d s] one by simp
qed

text \<open>
  Three chunks of two frames each: the second arrives while the first plays and follows it
  at once, the third arrives at time 5, after the second has ended.
\<close>

theorem C1_playback_timeline_witness:
  "isConnected connected_client \<and>
   outputAudioContext connected_client = Some (running_context 24000) \<and>
   outputNode connected_client = Some GainNode \<and>
   \<not> is_interrupted (audio_message ''AID/fw=='') \<and>
   decoded_chunk (audio_message ''AID/fw=='') = Some (Inr two_frames) \<and>
   scheduled (snd (handleMessage seconds connected_client (audio_message ''AID/fw=='')))
     = [(0, two_frames)] \<and>
   nextStartTime (fst (handleMessage seconds connected_client (audio_message ''AID/fw=='')))
     = 1 / 12000 \<and>
   scheduled (snd (run seconds connected_client
      [ServerMessage (audio_message ''AID/fw==''), ServerMessage (audio_message ''AID/fw==''),
       ClockAdvance 5, ServerMessage (audio_message ''AID/fw=='')]))
     = [(0, two_frames), (1 / 12000, two_frames), (5, two_frames)] \<and>
   nextStartTime (fst (run seconds connected_client
      [ServerMessage (audio_message ''AID/fw==''), ServerMessage (audio_message ''AID/fw==''),
       ClockAdvance 5, ServerMessage (audio_message ''AID/fw=='')]))
     = 60001 / 12000"
proof -
  define evs :: "rat event list" where
    "evs = [ServerMessage (audio_message ''AID/fw==''), ServerMessage (audio_message ''AID/fw==''),
       ClockAdvance 5, ServerMessage (audio_message ''AID/fw=='')]"
  have a: "isConnected connected_client"
    "outputAudioContext connected_client = Some (running_context 24000)"
    "outputNode connected_client = Some GainNode"
    by (simp_all add: connected_client_eq)
  have b: "\<forall>ev \<in> set evs. \<not> interrupting ev"
    by (simp add: evs_def audio_not_interrupted)
  have c: "\<forall>ev \<in> set evs. \<not> decode_failure ev"
    by (simp add: evs_def chunk_example)
  have t: "timeline seconds (nextStartTime connected_client)
             (currentTime (running_context 24000)) evs
           = [(0, two_frames), (1 / 12000, two_frames), (5, two_frames)]"
    by (simp add: evs_def chunk_example seconds_two_frames connected_client_eq
        running_context_def)
  have n: "nextStartTime connected_client = 0"
    by (simp add: connected_client_eq)
  have m: "\<not> is_interrupted (audio_message ''AID/fw=='') \<and>
           decoded_chunk (audio_message ''AID/fw=='') = Some (Inr two_frames)"
    by (simp add: audio_not_interrupted chunk_example)
  from C1_playback_timeline [OF a b, of "audio_message ''AID/fw==''" two_frames seconds] c t m
  have "scheduled (snd (handleMessage seconds connected_client (audio_message ''AID/fw=='')))
          = [(0, two_frames)]"
    and "nextStartTime (fst (handleMessage seconds connected_client (audio_message ''AID/fw=='')))
          = 1 / 12000"
    and "scheduled (snd (run seconds connected_client evs))
          = [(0, two_frames), (1 / 12000, two_frames), (5, two_frames)]"
    and "nextStartTime (fst (run seconds connected_client evs))
          = last_end seconds 0 [(0, two_frames), (1 / 12000, two_frames), (5, two_frames)]"
    by (simp_all add: n seconds_two_frames running_context_def)
  then show ?thesis
    using a by (simp add: evs_def seconds_two_frames audio_not_interrupted chunk_example)
qed

text \<open>
  The claim as first stated has \<^verbatim>\<open>nextStartTime\<close> equal to the end of the last scheduled
  chunk at all times. After one chunk that ends at \<open>1/12000\<close>, a message that arrives at
  time 5 with inline data that is not base64 schedules nothing and leaves \<^verbatim>\<open>nextStartTime\<close>
  at 5.
\<close>

theorem C1_decode_failure_counterexample:
  "isConnected connected_client \<and>
   \<not> is_interrupted (audio_message ''AID/fw=='') \<and> \<not> is_interrupted (audio_message ''!'') \<and>
   scheduled (snd (run seconds connected_client
      [ServerMessage (audio_message ''AID/fw==''), ClockAdvance 5,
       ServerMessage (audio_message ''!'')]))
     = [(0, two_frames)] \<and>
   last_end seconds 0 [(0, two_frames)] = 1 / 12000 \<and>
   nextStartTime (fst (run seconds connected_client
      [ServerMessage (audio_message ''AID/fw==''), ClockAdvance 5,
       ServerMessage (audio_message ''!'')]))
     = 5"
proof -
  have a: "isConnected connected_client"
    "outputAudioContext connected_client = Some (running_context 24000)"
    "outputNode connected_client = Some GainNode"
    "nextStartTime connected_client = 0"
    by (simp_all add: connected_client_eq)
  define s1 where "s1 = fst (handleMessage seconds connected_client (audio_message ''AID/fw==''))"
  have 1: "scheduled (snd (handleMessage seconds connected_client (audio_message ''AID/fw=='')))
             = [(0, two_frames)]"
    "nextStartTime s1 = 1 / 12000"
    using handleMessage_chunk(1) [OF a(1,2,3) audio_not_interrupted chunk_example, of seconds]
    by (simp_all add: a(4) s1_def seconds_two_frames running_context_def)
  have f1: "isConnected s1" "outputAudioContext s1 = Some (running_context 24000)"
    "outputNode s1 = Some GainNode"
    using a by (simp_all add: s1_def handleMessage_frame)
  define s2 where "s2 = advance_clock 5 s1"
  have f2: "isConnected s2"
    "outputAudioContext s2 = Some (running_context 24000\<lparr>currentTime := 5\<rparr>)"
    "outputNode s2 = Some GainNode" "nextStartTime s2 = 1 / 12000"
    using f1 1 by (simp_all add: s2_def advance_clock_def running_context_def)
  have 3: "scheduled (snd (handleMessage seconds s2 (audio_message ''!''))) = []"
    "nextStartTime (fst (handleMessage seconds s2 (audio_message ''!''))) = 5"
    using handleMessage_chunk(2) [OF f2(1,2,3) audio_not_interrupted chunk_bad, of seconds]
    by (simp_all add: f2(4))
  show ?thesis
    using a(1) 1 3
    by (simp add: case_prod_beta scheduled_append s1_def [symmetric] s2_def [symmetric]
        audio_not_interrupted seconds_two_frames)
qed

end
